theory Spec2Isabelle
  imports Complex_Main "HOL-Library.Multiset"
begin

section \<open>Python values shared by the three modules\<close>

text \<open>
  Every Python function that can raise is modelled with the result type
  \<open>py_error + 'a\<close>: \<open>Inl e\<close> is the exception \<open>e\<close> leaving the function,
  \<open>Inr v\<close> is the returned value. A Python float is the real number it denotes.
  \<open>to_double\<close> rounds a real to the nearest double (53 significant bits, ties to even;
  overflow and subnormal numbers are left out), which is what one correctly rounded float
  operation does to its exact result. \<open>round(x, n)\<close> sees the double and rounds its
  exact value to \<open>n\<close> decimal digits, half to even.
  The libraries the code calls (spaCy, TextBlob, sentence-transformers, scikit-learn,
  \<open>datetime.fromisoformat\<close>) are parameters of the model, each one a function that may
  fail.
\<close>

datatype py_error = BackendError | ValueError | TypeError | IndexError | AttributeError

type_synonym 'a result = "py_error + 'a"

definition round_half_even :: "real \<Rightarrow> int" where
  "round_half_even x =
     (let f = \<lfloor>x\<rfloor>; d = x - of_int f
      in if d < 1 / 2 then f else if 1 / 2 < d then f + 1 else if even f then f else f + 1)"

fun normalize :: "nat \<Rightarrow> real \<Rightarrow> int \<Rightarrow> real \<times> int" where
  \<comment> \<open>scales \<open>m\<close> by powers of two into \<open>[2^52, 2^53)\<close>, keeping \<open>m * 2^e\<close>\<close>
  "normalize 0 m e = (m, e)"
| "normalize (Suc n) m e =
     (if \<bar>m\<bar> < 2 ^ 52 then normalize n (2 * m) (e - 1)
      else if 2 ^ 53 \<le> \<bar>m\<bar> then normalize n (m / 2) (e + 1)
      else (m, e))"

definition to_double :: "real \<Rightarrow> real" where
  "to_double x =
     (if x = 0 then 0
      else case normalize 2200 x 0 of (m, e) \<Rightarrow> of_int (round_half_even m) * 2 powi e)"

definition py_round :: "real \<Rightarrow> nat \<Rightarrow> real" where
  \<comment> \<open>\<open>round(x, ndigits)\<close> on the float nearest to \<open>x\<close>\<close>
  "py_round x ndigits =
     of_int (round_half_even (to_double x * 10 ^ ndigits)) / 10 ^ ndigits"

definition np_mean :: "real list \<Rightarrow> real" where
  \<comment> \<open>\<open>np.mean\<close>; the code only calls it on non-empty lists\<close>
  "np_mean xs = sum_list xs / real (length xs)"

subsection \<open>\<open>collections.Counter\<close>\<close>

text \<open>
  A Counter is a dict, so it keeps its keys in insertion order: an association list.
  \<open>counter_add\<close> is \<open>c[k] += 1\<close>, \<open>counter_update\<close> is \<open>c.update(iterable)\<close> (and
  \<open>Counter(iterable)\<close> from the empty counter), \<open>counter_get\<close> is \<open>c[k]\<close>, which is 0
  for a missing key, \<open>counter_total\<close> is \<open>sum(c.values())\<close>.
\<close>

type_synonym 'a counter = "('a \<times> nat) list"

fun counter_add :: "'a \<Rightarrow> 'a counter \<Rightarrow> 'a counter" where
  "counter_add k [] = [(k, 1)]"
| "counter_add k ((k', n) # c) =
     (if k = k' then (k', n + 1) # c else (k', n) # counter_add k c)"

definition counter_update :: "'a counter \<Rightarrow> 'a list \<Rightarrow> 'a counter" where
  "counter_update c xs = foldl (\<lambda>c x. counter_add x c) c xs"

definition counter_get :: "'a counter \<Rightarrow> 'a \<Rightarrow> nat" where
  "counter_get c k = (case map_of c k of None \<Rightarrow> 0 | Some n \<Rightarrow> n)"

definition counter_total :: "'a counter \<Rightarrow> nat" where
  "counter_total c = sum_list (map snd c)"

section \<open>personality/analyzer.py\<close>

record indicators =
  ind_words :: "string list"
  ind_pos_tags :: "string list"
  sentiment_weight :: real

definition TRAIT_INDICATORS :: "(string \<times> indicators) list" where
  "TRAIT_INDICATORS =
    [(''openness'',
        \<lparr>ind_words = [''creative'', ''innovative'', ''curious'', ''imaginative'', ''explore'',
                      ''new'', ''idea'', ''art''],
         ind_pos_tags = [''ADJ'', ''ADV''], sentiment_weight = 0.3\<rparr>),
     (''conscientiousness'',
        \<lparr>ind_words = [''plan'', ''organize'', ''efficient'', ''reliable'', ''careful'',
                      ''detail'', ''goal'', ''schedule''],
         ind_pos_tags = [''VERB'', ''NOUN''], sentiment_weight = 0.2\<rparr>),
     (''extraversion'',
        \<lparr>ind_words = [''social'', ''outgoing'', ''energetic'', ''enthusiastic'', ''party'',
                      ''people'', ''talk'', ''fun''],
         ind_pos_tags = [''INTJ''], sentiment_weight = 0.4\<rparr>),
     (''agreeableness'',
        \<lparr>ind_words = [''kind'', ''helpful'', ''trust'', ''cooperative'', ''compassionate'',
                      ''caring'', ''empathy'', ''support''],
         ind_pos_tags = [''ADJ''], sentiment_weight = 0.5\<rparr>),
     (''neuroticism'',
        \<lparr>ind_words = [''stress'', ''worry'', ''anxious'', ''nervous'', ''unstable'',
                      ''emotional'', ''moody'', ''fear''],
         ind_pos_tags = [''ADJ'', ''NOUN''], sentiment_weight = - 0.4\<rparr>)]"

text \<open>
  A spaCy token, reduced to the four attributes the code reads, and the two language
  libraries: \<open>nlp\<close> is the spaCy pipeline, \<open>polarity\<close> is
  \<open>TextBlob(text).sentiment.polarity\<close>.
\<close>

record token =
  tok_lemma :: string
  tok_pos :: string
  is_stop :: bool
  is_alpha :: bool

record nlp_backend =
  nlp :: "string \<Rightarrow> token list result"
  polarity :: "string \<Rightarrow> real result"

definition lower_char :: "char \<Rightarrow> char" where
  "lower_char c =
     (let n = (of_char c :: nat) in if 65 \<le> n \<and> n \<le> 90 then char_of (n + 32) else c)"

definition lower :: "string \<Rightarrow> string" where
  \<comment> \<open>\<open>str.lower\<close> on the ASCII letters\<close>
  "lower s = map lower_char s"

record features =
  words :: "string list"
  pos_tags :: "string list"
  sentiment :: real
  text_length :: nat
  complexity :: real

definition extract_features :: "nlp_backend \<Rightarrow> string \<Rightarrow> features result" where
  "extract_features b text =
     (case nlp b (lower text) of
        Inl e \<Rightarrow> Inl e
      | Inr doc \<Rightarrow>
          (let ws = map tok_lemma (filter (\<lambda>t. \<not> is_stop t \<and> is_alpha t) doc);
               ps = map tok_pos doc
           in case polarity b text of
                Inl e \<Rightarrow> Inl e
              | Inr s \<Rightarrow>
                  Inr \<lparr>words = ws, pos_tags = ps, sentiment = s, text_length = length text,
                       complexity = (if ws \<noteq> [] then np_mean (map (\<lambda>w. real (length w)) ws)
                                     else 0)\<rparr>))"

record all_features =
  word_freq :: "string counter"
  all_pos_tags :: "string counter"
  sentiments :: "real list"
  avg_length :: "nat list"
  all_complexity :: "real list"

text \<open>
  The score of a trait is a chain of float operations. They are parameters of
  \<open>calculate_trait_score_with\<close>: \<open>fadd\<close>, \<open>fmul\<close> and \<open>fdiv\<close> are the float \<open>+\<close>,
  \<open>*\<close> and \<open>/\<close>, \<open>fmean\<close> is \<open>np.mean\<close>, \<open>fround\<close> is \<open>round\<close>. What is proved for
  every choice of them holds for the IEEE operations of the interpreter. \<open>exact_ops\<close> is
  the choice in which the arithmetic is exact and only \<open>round\<close> sees a double;
  \<open>calculate_trait_score\<close> and \<open>analyze_texts\<close> are the code under that choice.
\<close>

record float_ops =
  fadd :: "real \<Rightarrow> real \<Rightarrow> real"
  fmul :: "real \<Rightarrow> real \<Rightarrow> real"
  fdiv :: "real \<Rightarrow> real \<Rightarrow> real"
  fmean :: "real list \<Rightarrow> real"
  fround :: "real \<Rightarrow> nat \<Rightarrow> real"

definition exact_ops :: float_ops where
  "exact_ops = \<lparr>fadd = (+), fmul = (*), fdiv = (/), fmean = np_mean, fround = py_round\<rparr>"

definition calculate_trait_score_with ::
  "float_ops \<Rightarrow> string \<Rightarrow> indicators \<Rightarrow> all_features \<Rightarrow> real" where
  "calculate_trait_score_with ops trait ind fts =
     (let score = 0.5;
          trait_word_count = sum_list (map (counter_get (word_freq fts)) (ind_words ind));
          total_words = counter_total (word_freq fts);
          score = (if total_words > 0
                   then fadd ops score
                          (fmul ops (fdiv ops (real trait_word_count) (real total_words)) 0.3)
                   else score);
          trait_pos_count = sum_list (map (counter_get (all_pos_tags fts)) (ind_pos_tags ind));
          total_pos = counter_total (all_pos_tags fts);
          score = (if total_pos > 0
                   then fadd ops score
                          (fmul ops (fdiv ops (real trait_pos_count) (real total_pos)) 0.2)
                   else score);
          avg_sentiment = fmean ops (sentiments fts);
          sentiment_contribution = fmul ops avg_sentiment (sentiment_weight ind);
          score = fadd ops score sentiment_contribution;
          score = max 0.0 (min 1.0 score)
      in fround ops score 3)"

definition calculate_trait_score :: "string \<Rightarrow> indicators \<Rightarrow> all_features \<Rightarrow> real" where
  "calculate_trait_score = calculate_trait_score_with exact_ops"

definition default_personality :: "(string \<times> real) list" where
  "default_personality =
     [(''openness'', 0.5), (''conscientiousness'', 0.5), (''extraversion'', 0.5),
      (''agreeableness'', 0.5), (''neuroticism'', 0.3)]"

text \<open>The loop over the texts: the first text whose extraction raises ends it.\<close>

fun aggregate_features :: "nlp_backend \<Rightarrow> all_features \<Rightarrow> string list \<Rightarrow> all_features result" where
  "aggregate_features b fts [] = Inr fts"
| "aggregate_features b fts (text # texts) =
     (case extract_features b text of
        Inl e \<Rightarrow> Inl e
      | Inr f \<Rightarrow>
          aggregate_features b
            \<lparr>word_freq = counter_update (word_freq fts) (words f),
             all_pos_tags = counter_update (all_pos_tags fts) (pos_tags f),
             sentiments = sentiments fts @ [sentiment f],
             avg_length = avg_length fts @ [text_length f],
             all_complexity = all_complexity fts @ [complexity f]\<rparr>
            texts)"

definition analyze_texts_with ::
  "float_ops \<Rightarrow> nlp_backend \<Rightarrow> string list \<Rightarrow> (string \<times> real) list result" where
  "analyze_texts_with ops b texts =
     (if texts = [] then Inr default_personality
      else
        case aggregate_features b
               \<lparr>word_freq = [], all_pos_tags = [], sentiments = [], avg_length = [],
                all_complexity = []\<rparr> texts of
          Inl e \<Rightarrow> Inl e
        | Inr fts \<Rightarrow>
            Inr (map (\<lambda>(trait, ind). (trait, calculate_trait_score_with ops trait ind fts))
                   TRAIT_INDICATORS))"

definition analyze_texts :: "nlp_backend \<Rightarrow> string list \<Rightarrow> (string \<times> real) list result" where
  "analyze_texts = analyze_texts_with exact_ops"

text \<open>
  The score of one trait in the words of the specification, over the features of the
  texts: the indicator-word occurrences among all lemmas, the indicator tags among all
  tags, the mean sentiment. A term that contributes 0 is a term that is not added.
\<close>

definition clamp01 :: "real \<Rightarrow> real" where
  "clamp01 x = (if x < 0 then 0 else if 1 < x then 1 else x)"

definition spec_trait_score :: "float_ops \<Rightarrow> indicators \<Rightarrow> features list \<Rightarrow> real" where
  "spec_trait_score ops ind fs =
     (let lemmas = concat (map words fs);
          tags = concat (map pos_tags fs);
          word_ratio =
            fdiv ops (real (length (filter (\<lambda>w. w \<in> set (ind_words ind)) lemmas)))
              (real (length lemmas));
          pos_ratio =
            fdiv ops (real (length (filter (\<lambda>p. p \<in> set (ind_pos_tags ind)) tags)))
              (real (length tags));
          mean_sentiment = fmean ops (map sentiment fs);
          with_words =
            (if length lemmas = 0 then 0.5 else fadd ops 0.5 (fmul ops word_ratio 0.3));
          with_tags =
            (if length tags = 0 then with_words
             else fadd ops with_words (fmul ops pos_ratio 0.2));
          with_sentiment =
            fadd ops with_tags (fmul ops mean_sentiment (sentiment_weight ind))
      in fround ops (clamp01 with_sentiment) 3)"

section \<open>Sorting and slicing as Python does\<close>

text \<open>
  \<open>xs.sort(key=f, reverse=True)\<close> and \<open>sorted(xs, key=f, reverse=True)\<close> are stable:
  elements with equal keys keep their order. \<open>sort_key\<close> is a stable insertion sort, so
  sorting on the negated key is the same list. \<open>xs[:k]\<close> with a negative \<open>k\<close> drops the
  last \<open>-k\<close> elements; \<open>xs[-n:]\<close> keeps the last \<open>n\<close>.
\<close>

definition sort_desc :: "('a \<Rightarrow> real) \<Rightarrow> 'a list \<Rightarrow> 'a list" where
  "sort_desc f xs = sort_key (\<lambda>x. - f x) xs"

definition slice_to :: "'a list \<Rightarrow> int \<Rightarrow> 'a list" where
  "slice_to xs k = (if 0 \<le> k then take (nat k) xs else take (length xs - nat (- k)) xs)"

definition last_n :: "nat \<Rightarrow> 'a list \<Rightarrow> 'a list" where
  "last_n n xs = drop (length xs - n) xs"

definition most_common :: "nat \<Rightarrow> 'a counter \<Rightarrow> ('a \<times> nat) list" where
  \<comment> \<open>\<open>Counter.most_common(n)\<close>: the \<open>n\<close> largest counts, ties in insertion order\<close>
  "most_common n c = take n (sort_desc (\<lambda>kv. real (snd kv)) c)"

fun nth_res :: "'a list \<Rightarrow> nat \<Rightarrow> 'a result" where
  "nth_res [] i = Inl IndexError"
| "nth_res (x # xs) 0 = Inr x"
| "nth_res (x # xs) (Suc i) = nth_res xs i"

section \<open>embeddings/service.py\<close>

text \<open>
  An embedding is a vector of reals. \<open>model_encode\<close> is \<open>SentenceTransformer.encode\<close> on
  one text, \<open>model_encode_batch\<close> the same call on a list of texts with a batch size; the
  second returns the rows of the matrix. The scikit-learn calls are \<open>fit_transform\<close>
  (\<open>TfidfVectorizer.fit_transform\<close> together with \<open>get_feature_names_out\<close>), \<open>kmeans\<close>
  (\<open>KMeans(n_clusters, random_state=42, n_init=10).fit_predict\<close>, giving the labels and
  \<open>cluster_centers_\<close>) and numpy's \<open>argsort\<close>.

  \<open>np.dot\<close> of two vectors of different lengths raises ValueError. A division by a zero
  norm is not an exception in numpy (the result is nan); the reals have no such value and
  the quotient of the model is 0 there, so a statement about the value of a score assumes
  embeddings of non-zero norm.
\<close>

type_synonym vec = "real list"

record embedding_model =
  model_encode :: "string \<Rightarrow> vec result"
  model_encode_batch :: "string list \<Rightarrow> nat \<Rightarrow> vec list result"

record sklearn =
  fit_transform :: "string list \<Rightarrow> (vec list \<times> string list) result"
  kmeans :: "vec list \<Rightarrow> int \<Rightarrow> (nat list \<times> vec list) result"
  argsort :: "vec \<Rightarrow> nat list"

definition np_dot :: "vec \<Rightarrow> vec \<Rightarrow> real result" where
  "np_dot u v = (if length u = length v then Inr (\<Sum>(x, y)\<leftarrow>zip u v. x * y) else Inl ValueError)"

definition np_norm :: "vec \<Rightarrow> real" where
  "np_norm v = sqrt (\<Sum>x\<leftarrow>v. x * x)"

definition encode :: "embedding_model \<Rightarrow> string \<Rightarrow> vec result" where
  "encode m text = (case model_encode m text of Inl e \<Rightarrow> Inl e | Inr embedding \<Rightarrow> Inr embedding)"

definition encode_batch :: "embedding_model \<Rightarrow> string list \<Rightarrow> nat \<Rightarrow> vec list result" where
  "encode_batch m texts batch_size =
     (if texts = [] then Inr []
      else case model_encode_batch m texts batch_size of
             Inl e \<Rightarrow> Inl e
           | Inr embeddings \<Rightarrow> Inr embeddings)"

definition similarity_try :: "embedding_model \<Rightarrow> string \<Rightarrow> string \<Rightarrow> real result" where
  \<comment> \<open>the body of the \<open>try\<close> block of \<open>similarity\<close>\<close>
  "similarity_try m text1 text2 =
     (case encode m text1 of
        Inl e \<Rightarrow> Inl e
      | Inr emb1 \<Rightarrow>
          (case encode m text2 of
             Inl e \<Rightarrow> Inl e
           | Inr emb2 \<Rightarrow>
               (case np_dot emb1 emb2 of
                  Inl e \<Rightarrow> Inl e
                | Inr d \<Rightarrow> Inr (d / (np_norm emb1 * np_norm emb2)))))"

definition similarity :: "embedding_model \<Rightarrow> string \<Rightarrow> string \<Rightarrow> real result" where
  "similarity m text1 text2 =
     (case similarity_try m text1 text2 of Inl e \<Rightarrow> Inr 0.0 | Inr s \<Rightarrow> Inr s)"

fun similarities_loop :: "vec \<Rightarrow> nat \<Rightarrow> vec list \<Rightarrow> (nat \<times> real) list result" where
  \<comment> \<open>\<open>for idx, cand_emb in enumerate(candidate_embs)\<close>, from index \<open>idx\<close> on\<close>
  "similarities_loop query_emb idx [] = Inr []"
| "similarities_loop query_emb idx (cand_emb # rest) =
     (case np_dot query_emb cand_emb of
        Inl e \<Rightarrow> Inl e
      | Inr d \<Rightarrow>
          (case similarities_loop query_emb (Suc idx) rest of
             Inl e \<Rightarrow> Inl e
           | Inr sims \<Rightarrow> Inr ((idx, d / (np_norm query_emb * np_norm cand_emb)) # sims)))"

definition find_similar_try ::
  "embedding_model \<Rightarrow> string \<Rightarrow> string list \<Rightarrow> int \<Rightarrow> (nat \<times> real) list result" where
  \<comment> \<open>the body of the \<open>try\<close> block of \<open>find_similar\<close>\<close>
  "find_similar_try m query candidates top_k =
     (case encode m query of
        Inl e \<Rightarrow> Inl e
      | Inr query_emb \<Rightarrow>
          (case encode_batch m candidates 32 of
             Inl e \<Rightarrow> Inl e
           | Inr candidate_embs \<Rightarrow>
               (case similarities_loop query_emb 0 candidate_embs of
                  Inl e \<Rightarrow> Inl e
                | Inr similarities \<Rightarrow> Inr (slice_to (sort_desc snd similarities) top_k))))"

definition find_similar ::
  "embedding_model \<Rightarrow> string \<Rightarrow> string list \<Rightarrow> int \<Rightarrow> (nat \<times> real) list result" where
  "find_similar m query candidates top_k =
     (if candidates = [] then Inr []
      else case find_similar_try m query candidates top_k of
             Inl e \<Rightarrow> Inr []
           | Inr r \<Rightarrow> Inr r)"



fun group_labels :: "nat list list \<Rightarrow> nat \<Rightarrow> nat list \<Rightarrow> nat list list result" where
  \<comment> \<open>\<open>for idx, label in enumerate(labels): clusters[label].append(idx)\<close>\<close>
  "group_labels clusters idx [] = Inr clusters"
| "group_labels clusters idx (label # labels) =
     (if label < length clusters
      then group_labels (clusters[label := clusters ! label @ [idx]]) (Suc idx) labels
      else Inl IndexError)"

definition singletons :: "'a list \<Rightarrow> nat list list" where
  \<comment> \<open>\<open>[[i] for i in range(len(texts))]\<close>\<close>
  "singletons texts = map (\<lambda>i. [i]) [0..<length texts]"

definition cluster_texts_try ::
  "embedding_model \<Rightarrow> sklearn \<Rightarrow> string list \<Rightarrow> int \<Rightarrow> nat list list result" where
  "cluster_texts_try m sk texts n_clusters =
     (case encode_batch m texts 32 of
        Inl e \<Rightarrow> Inl e
      | Inr embeddings \<Rightarrow>
          (case kmeans sk embeddings n_clusters of
             Inl e \<Rightarrow> Inl e
           | Inr (labels, centers) \<Rightarrow>
               group_labels (replicate (nat n_clusters) []) 0 labels))"

definition cluster_texts ::
  "embedding_model \<Rightarrow> sklearn \<Rightarrow> string list \<Rightarrow> int \<Rightarrow> nat list list result" where
  "cluster_texts m sk texts n_clusters =
     (if int (length texts) < n_clusters then Inr (singletons texts)
      else case cluster_texts_try m sk texts n_clusters of
             Inl e \<Rightarrow> Inr (singletons texts)
           | Inr clusters \<Rightarrow> Inr clusters)"

section \<open>learning/pattern_learner.py\<close>

subsection \<open>Dictionaries, timestamps\<close>

text \<open>
  A tweet or an interaction is a \<open>Dict[str, Any]\<close>: an association list from keys to
  Python values. The values the code tells apart are \<open>None\<close>, strings, \<open>datetime\<close>
  objects and the rest, here integers (hashable) and lists (not hashable).

  A \<open>datetime\<close> is its date as the proleptic Gregorian ordinal (\<open>date.toordinal()\<close>, day 1
  is Monday 0001-01-01), its time of day, and its UTC offset in microseconds, \<open>None\<close> for
  a naive datetime. Two aware datetimes are compared and subtracted as instants, two naive
  ones field by field; comparing a naive with an aware one raises TypeError.
  \<open>datetime.fromisoformat\<close> is a parameter \<open>string \<Rightarrow> datetime result\<close>.
\<close>

record datetime =
  ordinal :: nat
  hour :: nat
  minute :: nat
  second :: nat
  microsecond :: nat
  utcoffset :: "int option"

datatype pyval = PyNone | PyStr string | PyDateTime datetime | PyInt int | PyList "int list"

type_synonym pydict = "(string \<times> pyval) list"

fun truthy :: "pyval \<Rightarrow> bool" where
  "truthy PyNone = False"
| "truthy (PyStr s) = (s \<noteq> [])"
| "truthy (PyDateTime d) = True"
| "truthy (PyInt n) = (n \<noteq> 0)"
| "truthy (PyList xs) = (xs \<noteq> [])"

fun hashable :: "pyval \<Rightarrow> bool" where
  "hashable (PyList xs) = False"
| "hashable v = True"

definition dict_get :: "pydict \<Rightarrow> string \<Rightarrow> pyval \<Rightarrow> pyval" where
  \<comment> \<open>\<open>d.get(key, default)\<close>\<close>
  "dict_get d k dflt = (case map_of d k of None \<Rightarrow> dflt | Some v \<Rightarrow> v)"

definition replace_Z :: "string \<Rightarrow> string" where
  \<comment> \<open>\<open>s.replace("Z", "+00:00")\<close>\<close>
  "replace_Z s = concat (map (\<lambda>c. if c = CHR ''Z'' then ''+00:00'' else [c]) s)"

definition day_name :: "datetime \<Rightarrow> string" where
  \<comment> \<open>\<open>strftime("%A")\<close>; \<open>date.weekday()\<close> is \<open>(toordinal() + 6) % 7\<close>, 0 for Monday\<close>
  "day_name d =
     [''Monday'', ''Tuesday'', ''Wednesday'', ''Thursday'', ''Friday'', ''Saturday'', ''Sunday'']
       ! ((ordinal d + 6) mod 7)"

definition local_us :: "datetime \<Rightarrow> int" where
  \<comment> \<open>microseconds from the start of day 0 to the fields of \<open>d\<close>\<close>
  "local_us d =
     (((int (ordinal d) * 24 + int (hour d)) * 60 + int (minute d)) * 60 + int (second d)) * 1000000
       + int (microsecond d)"

definition dt_key :: "datetime \<Rightarrow> int" where
  "dt_key d = (case utcoffset d of None \<Rightarrow> local_us d | Some off \<Rightarrow> local_us d - off)"

definition dt_less :: "datetime \<Rightarrow> datetime \<Rightarrow> bool result" where
  \<comment> \<open>\<open>a < b\<close> on datetimes\<close>
  "dt_less a b =
     (if (utcoffset a = None) \<noteq> (utcoffset b = None) then Inl TypeError
      else Inr (dt_key a < dt_key b))"

fun max_from :: "datetime \<Rightarrow> datetime list \<Rightarrow> datetime result" where
  \<comment> \<open>\<open>max\<close>: an item replaces the running maximum when \<open>item > maximum\<close>\<close>
  "max_from cur [] = Inr cur"
| "max_from cur (d # ds) =
     (case dt_less cur d of Inl e \<Rightarrow> Inl e | Inr g \<Rightarrow> max_from (if g then d else cur) ds)"

fun min_from :: "datetime \<Rightarrow> datetime list \<Rightarrow> datetime result" where
  "min_from cur [] = Inr cur"
| "min_from cur (d # ds) =
     (case dt_less d cur of Inl e \<Rightarrow> Inl e | Inr l \<Rightarrow> min_from (if l then d else cur) ds)"

definition timedelta_days :: "datetime \<Rightarrow> datetime \<Rightarrow> int" where
  \<comment> \<open>\<open>(a - b).days\<close> for two datetimes that compare\<close>
  "timedelta_days a b = (dt_key a - dt_key b) div 86400000000"

definition parse_created_at :: "(string \<Rightarrow> datetime result) \<Rightarrow> pyval \<Rightarrow> pyval result" where
  \<comment> \<open>\<open>if isinstance(created_at, str): created_at = datetime.fromisoformat(...)\<close>\<close>
  "parse_created_at fromisoformat created_at =
     (case created_at of
        PyStr s \<Rightarrow>
          (case fromisoformat (replace_Z s) of Inl e \<Rightarrow> Inl e | Inr d \<Rightarrow> Inr (PyDateTime d))
      | _ \<Rightarrow> Inr created_at)"

subsection \<open>\<open>learn_posting_patterns\<close> and \<open>_calculate_date_range\<close>\<close>

fun dt_of :: "pyval \<Rightarrow> datetime option" where
  "dt_of (PyDateTime d) = Some d"
| "dt_of v = None"

fun is_int :: "pyval \<Rightarrow> bool" where
  "is_int (PyInt n) = True"
| "is_int v = False"

definition span_days :: "pyval list \<Rightarrow> int result" where
  \<comment> \<open>\<open>(max(dates) - min(dates)).days\<close> on at least two values. Integers compare and
      subtract but have no \<open>days\<close>; any other mixture fails in a comparison or in the
      subtraction.\<close>
  "span_days dates =
     (case those (map dt_of dates) of
        None \<Rightarrow> if list_all is_int dates then Inl AttributeError else Inl TypeError
      | Some [] \<Rightarrow> Inl ValueError
      | Some (d # ds) \<Rightarrow>
          (case max_from d ds of
             Inl e \<Rightarrow> Inl e
           | Inr mx \<Rightarrow>
               (case min_from d ds of
                  Inl e \<Rightarrow> Inl e
                | Inr mn \<Rightarrow> Inr (timedelta_days mx mn))))"

fun collect_dates :: "(string \<Rightarrow> datetime result) \<Rightarrow> pydict list \<Rightarrow> pyval list result" where
  "collect_dates fromisoformat [] = Inr []"
| "collect_dates fromisoformat (tweet # tweets) =
     (case parse_created_at fromisoformat (dict_get tweet ''created_at'' PyNone) of
        Inl e \<Rightarrow> Inl e
      | Inr created_at \<Rightarrow>
          (case collect_dates fromisoformat tweets of
             Inl e \<Rightarrow> Inl e
           | Inr dates \<Rightarrow> Inr (if truthy created_at then created_at # dates else dates)))"

definition calculate_date_range :: "(string \<Rightarrow> datetime result) \<Rightarrow> pydict list \<Rightarrow> int result" where
  "calculate_date_range fromisoformat tweets =
     (case collect_dates fromisoformat tweets of
        Inl e \<Rightarrow> Inl e
      | Inr dates \<Rightarrow>
          if length dates < 2 then Inr 1
          else (case span_days dates of
                  Inl e \<Rightarrow> Inl e
                | Inr date_range \<Rightarrow> Inr (max date_range 1)))"

fun posting_loop ::
  "(string \<Rightarrow> datetime result) \<Rightarrow> pydict list \<Rightarrow> (nat list \<times> string list) result" where
  "posting_loop fromisoformat [] = Inr ([], [])"
| "posting_loop fromisoformat (tweet # tweets) =
     (case parse_created_at fromisoformat (dict_get tweet ''created_at'' PyNone) of
        Inl e \<Rightarrow> Inl e
      | Inr created_at \<Rightarrow>
          if truthy created_at
          then (case created_at of
                  PyDateTime d \<Rightarrow>
                    (case posting_loop fromisoformat tweets of
                       Inl e \<Rightarrow> Inl e
                     | Inr (hours, days) \<Rightarrow> Inr (hour d # hours, day_name d # days))
                | _ \<Rightarrow> Inl AttributeError)
          else posting_loop fromisoformat tweets)"

record posting_pattern =
  best_hours :: "nat list"
  best_days :: "string list"
  avg_per_day :: real
  total_analyzed :: "nat option"

definition learn_posting_patterns ::
  "(string \<Rightarrow> datetime result) \<Rightarrow> pydict list \<Rightarrow> posting_pattern result" where
  "learn_posting_patterns fromisoformat tweets =
     (if tweets = []
      then Inr \<lparr>best_hours = [], best_days = [], avg_per_day = 0, total_analyzed = None\<rparr>
      else
        case posting_loop fromisoformat tweets of
          Inl e \<Rightarrow> Inl e
        | Inr (hours, days) \<Rightarrow>
            (let hour_counts = counter_update [] hours;
                 best_hours = map fst (most_common 5 hour_counts);
                 day_counts = counter_update [] days;
                 best_days = map fst (most_common 3 day_counts)
             in case calculate_date_range fromisoformat tweets of
                  Inl e \<Rightarrow> Inl e
                | Inr date_range \<Rightarrow>
                    (let avg = real (length tweets) / real_of_int (max date_range 1)
                     in Inr \<lparr>best_hours = best_hours, best_days = best_days,
                             avg_per_day = py_round avg 2,
                             total_analyzed = Some (length tweets)\<rparr>)))"

subsection \<open>\<open>learn_content_topics\<close>\<close>

record topic =
  cluster_id :: nat
  topic_keywords :: "string list"
  tweet_count :: nat
  prominence :: real

fun lookup_all :: "'a list \<Rightarrow> nat list \<Rightarrow> 'a list result" where
  \<comment> \<open>\<open>[feature_names[idx] for idx in top_indices]\<close>\<close>
  "lookup_all names [] = Inr []"
| "lookup_all names (idx # idxs) =
     (case nth_res names idx of
        Inl e \<Rightarrow> Inl e
      | Inr x \<Rightarrow> (case lookup_all names idxs of Inl e \<Rightarrow> Inl e | Inr xs \<Rightarrow> Inr (x # xs)))"

definition make_topic ::
  "sklearn \<Rightarrow> nat \<Rightarrow> nat list \<Rightarrow> vec list \<Rightarrow> string list \<Rightarrow> nat \<Rightarrow> topic result" where
  \<comment> \<open>one round of \<open>for i in range(n_clusters)\<close>; \<open>n\<close> is \<open>len(tweets)\<close>, at least
      \<open>n_clusters\<close> and so positive whenever the loop runs\<close>
  "make_topic sk n clusters centers feature_names i =
     (case nth_res centers i of
        Inl e \<Rightarrow> Inl e
      | Inr center \<Rightarrow>
          (let top_indices = rev (last_n 10 (argsort sk center))
           in case lookup_all feature_names top_indices of
                Inl e \<Rightarrow> Inl e
              | Inr kws \<Rightarrow>
                  (let cluster_size = count_list clusters i
                   in Inr \<lparr>cluster_id = i, topic_keywords = take 5 kws, tweet_count = cluster_size,
                           prominence = py_round (real cluster_size / real n) 3\<rparr>)))"

fun topics_loop ::
  "sklearn \<Rightarrow> nat \<Rightarrow> nat list \<Rightarrow> vec list \<Rightarrow> string list \<Rightarrow> nat list \<Rightarrow> topic list result" where
  "topics_loop sk n clusters centers feature_names [] = Inr []"
| "topics_loop sk n clusters centers feature_names (i # is) =
     (case make_topic sk n clusters centers feature_names i of
        Inl e \<Rightarrow> Inl e
      | Inr t \<Rightarrow>
          (case topics_loop sk n clusters centers feature_names is of
             Inl e \<Rightarrow> Inl e
           | Inr ts \<Rightarrow> Inr (t # ts)))"

definition learn_content_topics_try :: "sklearn \<Rightarrow> string list \<Rightarrow> int \<Rightarrow> topic list result" where
  \<comment> \<open>the body of the \<open>try\<close> block of \<open>learn_content_topics\<close>\<close>
  "learn_content_topics_try sk tweets n_clusters =
     (case fit_transform sk tweets of
        Inl e \<Rightarrow> Inl e
      | Inr (tfidf_matrix, feature_names) \<Rightarrow>
          (case kmeans sk tfidf_matrix n_clusters of
             Inl e \<Rightarrow> Inl e
           | Inr (clusters, centers) \<Rightarrow>
               (case topics_loop sk (length tweets) clusters centers feature_names
                       [0..<nat n_clusters] of
                  Inl e \<Rightarrow> Inl e
                | Inr topics \<Rightarrow> Inr (sort_desc prominence topics))))"

definition learn_content_topics :: "sklearn \<Rightarrow> string list \<Rightarrow> int \<Rightarrow> topic list result" where
  "learn_content_topics sk tweets n_clusters =
     (if int (length tweets) < n_clusters then Inr []
      else case learn_content_topics_try sk tweets n_clusters of
             Inl e \<Rightarrow> Inr []
           | Inr topics \<Rightarrow> Inr topics)"

subsection \<open>\<open>learn_engagement_patterns\<close>\<close>

fun engagement_loop ::
  "(string \<Rightarrow> datetime result) \<Rightarrow> pyval counter \<Rightarrow> nat counter \<Rightarrow> pydict list
     \<Rightarrow> (pyval counter \<times> nat counter) result" where
  "engagement_loop fromisoformat by_type by_hour [] = Inr (by_type, by_hour)"
| "engagement_loop fromisoformat by_type by_hour (interaction # interactions) =
     (let itype = dict_get interaction ''interaction_type'' (PyStr ''unknown'')
      in if \<not> hashable itype then Inl TypeError
         else
           (let by_type = counter_add itype by_type;
                created_at = dict_get interaction ''created_at'' PyNone
            in if truthy created_at
               then (case parse_created_at fromisoformat created_at of
                       Inl e \<Rightarrow> Inl e
                     | Inr (PyDateTime d) \<Rightarrow>
                         engagement_loop fromisoformat by_type (counter_add (hour d) by_hour)
                           interactions
                     | Inr _ \<Rightarrow> Inl AttributeError)
               else engagement_loop fromisoformat by_type by_hour interactions))"

record engagement_pattern =
  total_interactions :: nat
  by_type :: "pyval counter"
  most_engaging_hours :: "nat list"
  engagement_avg_per_day :: real

definition learn_engagement_patterns ::
  "(string \<Rightarrow> datetime result) \<Rightarrow> pydict list \<Rightarrow> engagement_pattern option result" where
  \<comment> \<open>\<open>None\<close> is the empty dict returned for no interactions\<close>
  "learn_engagement_patterns fromisoformat interactions =
     (if interactions = [] then Inr None
      else
        case engagement_loop fromisoformat [] [] interactions of
          Inl e \<Rightarrow> Inl e
        | Inr (types, hours) \<Rightarrow>
            (let engaging_hours = take 5 (sort_desc (\<lambda>x. real (snd x)) hours)
             in Inr (Some \<lparr>total_interactions = length interactions, by_type = types,
                           most_engaging_hours = map fst engaging_hours,
                           engagement_avg_per_day = real (length interactions) / 30\<rparr>)))"

subsection \<open>Well-formed timestamps\<close>

text \<open>
  The inputs on which the two timestamp loops do not raise. \<open>timestamp_ok\<close>: a
  \<open>created_at\<close> that \<open>learn_engagement_patterns\<close> can use, either falsy (and skipped), or a
  datetime, or a string that \<open>fromisoformat\<close> accepts. \<open>created_dt\<close>: the datetime that
  \<open>learn_posting_patterns\<close> reads from a tweet. \<open>comparable\<close>: datetimes that \<open>max\<close> and
  \<open>min\<close> can compare and that, when they show the same date and hour, lie less than two
  days apart as instants.
\<close>

definition timestamp_ok :: "(string \<Rightarrow> datetime result) \<Rightarrow> pyval \<Rightarrow> bool" where
  "timestamp_ok fromisoformat created_at =
     (case created_at of
        PyNone \<Rightarrow> True
      | PyStr s \<Rightarrow> s = [] \<or> isl (fromisoformat (replace_Z s)) = False
      | PyDateTime d \<Rightarrow> True
      | PyInt n \<Rightarrow> n = 0
      | PyList xs \<Rightarrow> xs = [])"

definition interaction_ok :: "(string \<Rightarrow> datetime result) \<Rightarrow> pydict \<Rightarrow> bool" where
  "interaction_ok fromisoformat interaction =
     (hashable (dict_get interaction ''interaction_type'' (PyStr ''unknown''))
      \<and> timestamp_ok fromisoformat (dict_get interaction ''created_at'' PyNone))"

definition created_dt :: "(string \<Rightarrow> datetime result) \<Rightarrow> pydict \<Rightarrow> datetime option" where
  \<comment> \<open>the timestamp of a tweet after parsing, when it has one\<close>
  "created_dt fromisoformat tweet =
     (case parse_created_at fromisoformat (dict_get tweet ''created_at'' PyNone) of
        Inr (PyDateTime d) \<Rightarrow> Some d
      | _ \<Rightarrow> None)"

definition valid_time :: "datetime \<Rightarrow> bool" where
  "valid_time d = (hour d < 24 \<and> minute d < 60 \<and> second d < 60 \<and> microsecond d < 1000000)"

definition comparable :: "datetime list \<Rightarrow> bool" where
  \<comment> \<open>all naive, or all aware with UTC offsets at most 47 hours apart\<close>
  "comparable ds =
     (list_all (\<lambda>d. utcoffset d = None) ds
      \<or> list_all (\<lambda>d. list_all (\<lambda>d'.
            case (utcoffset d, utcoffset d') of
              (Some off, Some off') \<Rightarrow> off - off' \<le> 169200000000
            | _ \<Rightarrow> False) ds) ds)"

section \<open>Concrete inputs for the examples\<close>

text \<open>
  A toy language pipeline: every text is one token, an adjective that is neither a stop
  word nor non-alphabetic, and every text has polarity \<open>-0.2\<close>.
\<close>

definition sample_nlp :: nlp_backend where
  "sample_nlp =
     \<lparr>nlp = (\<lambda>s. Inr [\<lparr>tok_lemma = s, tok_pos = ''ADJ'', is_stop = False, is_alpha = True\<rparr>]),
      polarity = (\<lambda>s. Inr (- 0.2))\<rparr>"

definition sample_features :: "features list" where
  "sample_features =
    [\<lparr>words = [''creative''], pos_tags = [''ADJ''], sentiment = - 0.2, text_length = 8,
      complexity = 8\<rparr>,
     \<lparr>words = [''day''], pos_tags = [''ADJ''], sentiment = - 0.2, text_length = 3,
      complexity = 3\<rparr>]"

text \<open>
  A toy embedding model: the empty text cannot be encoded, a text of one character is
  \<open>(1, 0)\<close>, of two characters \<open>(0, 1)\<close>, any longer text \<open>(-1, 0)\<close>.

  A stand-in for scikit-learn that knows one corpus, three tweets of one word each.
  \<open>TfidfVectorizer\<close> gives every tweet the weight 1 on its own word, with the feature
  names in alphabetical order; k-means with three clusters puts each tweet into a cluster
  of its own, whose centre is the tweet's row (the cluster ids follow the order of the
  tweets here; in the library they depend on the seeded initialisation). Every other call
  fails, as k-means does for zero clusters. \<open>argsort\<close> is the stable sort of the indices,
  which is what numpy does on short arrays. \<open>sample_topics\<close> is the list of topics for
  that corpus.
\<close>

definition sample_model :: embedding_model where
  "sample_model =
     \<lparr>model_encode = (\<lambda>s. if s = [] then Inl BackendError
                           else if length s = 1 then Inr [1, 0]
                           else if length s = 2 then Inr [0, 1] else Inr [- 1, 0]),
      model_encode_batch = (\<lambda>ts n. if [] \<in> set ts then Inl BackendError
                           else Inr (map (\<lambda>s. if length s = 1 then [1, 0]
                                               else if length s = 2 then [0, 1] else [- 1, 0]) ts))\<rparr>"

definition sample_sklearn :: sklearn where
  "sample_sklearn =
     \<lparr>fit_transform =
        (\<lambda>ts. if ts = [''apple'', ''banana'', ''cherry'']
              then Inr ([[1, 0, 0], [0, 1, 0], [0, 0, 1]], [''apple'', ''banana'', ''cherry''])
              else Inl ValueError),
      kmeans =
        (\<lambda>X k. if X = [[1, 0, 0], [0, 1, 0], [0, 0, 1]] \<and> k = 3
               then Inr ([0, 1, 2], [[1, 0, 0], [0, 1, 0], [0, 0, 1]])
               else Inl ValueError),
      argsort = (\<lambda>v. map snd (sort_key fst (zip v [0..<length v])))\<rparr>"

definition sample_topics :: "topic list" where
  "sample_topics =
     [\<lparr>cluster_id = 0, topic_keywords = [''apple'', ''cherry'', ''banana''], tweet_count = 1,
       prominence = 0.333\<rparr>,
      \<lparr>cluster_id = 1, topic_keywords = [''banana'', ''cherry'', ''apple''], tweet_count = 1,
       prominence = 0.333\<rparr>,
      \<lparr>cluster_id = 2, topic_keywords = [''cherry'', ''banana'', ''apple''], tweet_count = 1,
       prominence = 0.333\<rparr>]"

definition prominence_values :: "topic list result \<Rightarrow> real list" where
  \<comment> \<open>the prominence of each returned topic, in the order returned\<close>
  "prominence_values r = (case r of Inl e \<Rightarrow> [] | Inr topics \<Rightarrow> map prominence topics)"

text \<open>
  A stand-in for \<open>datetime.fromisoformat\<close> that knows two strings, both on Monday
  2024-01-01 (ordinal 738886) at hour 14, one with offset \<open>+00:00\<close> and one naive, and
  rejects every other string, as the library rejects a string that is no date.
\<close>

definition sample_fromisoformat :: "string \<Rightarrow> datetime result" where
  "sample_fromisoformat s =
     (if s = ''2024-01-01T14:00:00+00:00''
      then Inr \<lparr>ordinal = 738886, hour = 14, minute = 0, second = 0, microsecond = 0,
                utcoffset = Some 0\<rparr>
      else if s = ''2024-01-01T14:30:00''
      then Inr \<lparr>ordinal = 738886, hour = 14, minute = 30, second = 0, microsecond = 0,
                utcoffset = None\<rparr>
      else Inl ValueError)"

definition monday_utc :: datetime where
  "monday_utc = \<lparr>ordinal = 738886, hour = 14, minute = 0, second = 0, microsecond = 0,
                  utcoffset = Some 0\<rparr>"

definition monday_naive :: datetime where
  "monday_naive = \<lparr>ordinal = 738886, hour = 14, minute = 30, second = 0, microsecond = 0,
                    utcoffset = None\<rparr>"

section \<open>Rounding and counters\<close>

lemma round_half_even_bounds:
  "x - 1 / 2 \<le> of_int (round_half_even x) \<and> of_int (round_half_even x) \<le> x + 1 / 2"
  unfolding round_half_even_def Let_def by (auto; linarith)

lemma round_half_even_of_int [simp]: "round_half_even (of_int n) = n"
  unfolding round_half_even_def Let_def by simp

lemma round_half_even_mono: "x \<le> y \<Longrightarrow> round_half_even x \<le> round_half_even y"
proof -
  assume xy: "x \<le> y"
  have fl: "\<lfloor>x\<rfloor> \<le> \<lfloor>y\<rfloor>" using xy by (rule floor_mono)
  show ?thesis
  proof (cases "\<lfloor>x\<rfloor> = \<lfloor>y\<rfloor>")
    case True
    then show ?thesis using xy unfolding round_half_even_def Let_def by auto
  next
    case False
    then have "\<lfloor>x\<rfloor> + 1 \<le> \<lfloor>y\<rfloor>" using fl by simp
    moreover have "round_half_even x \<le> \<lfloor>x\<rfloor> + 1"
      unfolding round_half_even_def Let_def by auto
    moreover have "\<lfloor>y\<rfloor> \<le> round_half_even y"
      unfolding round_half_even_def Let_def by auto
    ultimately show ?thesis by linarith
  qed
qed

lemma round_half_even_numeral [simp]:
  "round_half_even 0 = 0" "round_half_even 1000 = 1000"
  unfolding round_half_even_def Let_def by simp_all

lemma normalize_unfold:
  "0 < n \<Longrightarrow> normalize n m e =
     (if \<bar>m\<bar> < 2 ^ 52 then normalize (n - 1) (2 * m) (e - 1)
      else if 2 ^ 53 \<le> \<bar>m\<bar> then normalize (n - 1) (m / 2) (e + 1)
      else (m, e))"
  by (cases n) simp_all

lemma normalize_value:
  "normalize n m e = (m', e') \<Longrightarrow> m' * 2 powi e' = m * 2 powi e"
proof (induction n arbitrary: m e)
  case 0
  then show ?case by simp
next
  case (Suc n)
  have up: "(2 * m) * 2 powi (e - 1) = m * 2 powi e"
    by (simp add: power_int_diff)
  have down: "(m / 2) * 2 powi (e + 1) = m * 2 powi e"
    by (simp add: power_int_add)
  show ?case
  proof (cases "\<bar>m\<bar> < 2 ^ 52")
    case True
    then have "normalize n (2 * m) (e - 1) = (m', e')" using Suc.prems by simp
    from Suc.IH [OF this] show ?thesis by (simp only: up)
  next
    case False
    show ?thesis
    proof (cases "2 ^ 53 \<le> \<bar>m\<bar>")
      case True
      then have "normalize n (m / 2) (e + 1) = (m', e')" using Suc.prems False by simp
      from Suc.IH [OF this] show ?thesis by (simp only: down)
    next
      case b: False
      then show ?thesis using Suc.prems False by simp
    qed
  qed
qed

lemma normalize_small:
  "\<bar>m\<bar> < 2 ^ 53 \<Longrightarrow> normalize n m e = (m', e') \<Longrightarrow>
   e' \<le> e \<and> \<bar>m'\<bar> < 2 ^ 53 \<and> (2 ^ 52 \<le> \<bar>m'\<bar> \<or> e' = e - int n) \<and> (0 \<le> m \<longrightarrow> 0 \<le> m')"
proof (induction n arbitrary: m e)
  case 0
  then show ?case by simp
next
  case (Suc n)
  show ?case
  proof (cases "\<bar>m\<bar> < 2 ^ 52")
    case True
    then have r: "normalize n (2 * m) (e - 1) = (m', e')" using Suc.prems by simp
    have "\<bar>2 * m\<bar> < 2 ^ 53" using True by simp
    from Suc.IH [OF this r] show ?thesis by auto
  next
    case False
    then show ?thesis using Suc.prems by auto
  qed
qed

lemma to_double_unit:
  assumes "0 \<le> x" "x \<le> 1"
  shows "0 \<le> to_double x \<and> to_double x \<le> 1 \<and> \<bar>to_double x - x\<bar> \<le> 1 / 2 ^ 53"
proof (cases "x = 0")
  case True
  then show ?thesis by (simp add: to_double_def)
next
  case False
  obtain m e where n: "normalize 2200 x 0 = (m, e)" by (cases "normalize 2200 x 0")
  have small: "\<bar>x\<bar> < 2 ^ 53" using assms by simp
  have e: "e \<le> 0" and m53: "\<bar>m\<bar> < 2 ^ 53" and big: "2 ^ 52 \<le> \<bar>m\<bar> \<or> e = - 2200"
    and m0: "0 \<le> m"
    using normalize_small [OF small n] assms(1) by auto
  have val: "m * 2 powi e = x" using normalize_value [OF n] by simp
  define N where "N = nat (- e)"
  have p: "(2::real) powi e = 1 / 2 ^ N"
    using e unfolding N_def by (simp add: power_int_def field_simps)
  have td: "to_double x = of_int (round_half_even m) / 2 ^ N"
    using False n p by (simp add: to_double_def)
  have mx: "m = x * 2 ^ N" using val p by (simp add: field_simps)
  have lo: "0 \<le> round_half_even m"
    using round_half_even_mono [of 0 m] m0 by simp
  have "m \<le> of_int (2 ^ N)" using mx assms(2) by simp
  then have "round_half_even m \<le> round_half_even (of_int (2 ^ N))"
    by (rule round_half_even_mono)
  then have hi: "round_half_even m \<le> 2 ^ N" by (simp only: round_half_even_of_int)
  have r1: "0 \<le> to_double x" using lo td by simp
  have rr: "real_of_int (round_half_even m) \<le> 2 ^ N"
    using hi by (metis of_int_le_iff of_int_numeral of_int_power)
  have "to_double x \<le> 2 ^ N / 2 ^ N"
    unfolding td using rr by (intro divide_right_mono) simp_all
  then have r2: "to_double x \<le> 1" by simp
  have half: "\<bar>of_int (round_half_even m) - m\<bar> \<le> 1 / 2"
    using round_half_even_bounds [of m] by linarith
  have "to_double x - x = (of_int (round_half_even m) - m) / 2 ^ N"
    using td mx by (simp add: field_simps)
  then have "\<bar>to_double x - x\<bar> = \<bar>of_int (round_half_even m) - m\<bar> / 2 ^ N"
    by (simp only: abs_divide) simp
  also have "\<dots> \<le> (1 / 2) / 2 ^ N"
    using half by (intro divide_right_mono) simp_all
  finally have err: "\<bar>to_double x - x\<bar> \<le> (1 / 2) / 2 ^ N" .
  have N53: "(2::real) ^ 52 \<le> 2 ^ N"
  proof (cases "2 ^ 52 \<le> \<bar>m\<bar>")
    case True
    then have "2 ^ 52 \<le> x * 2 ^ N" using mx m0 by simp
    also have "\<dots> \<le> 1 * 2 ^ N" using assms(2) by (intro mult_right_mono) simp_all
    finally show ?thesis by simp
  next
    case b: False
    then have "e = - 2200" using big by simp
    then have "N = 2200" by (simp add: N_def)
    then show ?thesis by (simp add: power_increasing)
  qed
  have a: "(1 / 2) / (2::real) ^ N \<le> (1 / 2) / 2 ^ 52"
    using N53 by (intro divide_left_mono) simp_all
  have b: "(1 / 2) / (2::real) ^ 52 = 1 / 2 ^ 53" by simp
  have "\<bar>to_double x - x\<bar> \<le> 1 / 2 ^ 53" using err a b by linarith
  then show ?thesis using r1 r2 by simp
qed

lemma py_round3_unit: "0 \<le> x \<Longrightarrow> x \<le> 1 \<Longrightarrow> 0 \<le> py_round x 3 \<and> py_round x 3 \<le> 1"
proof -
  assume "0 \<le> x" and "x \<le> 1"
  then have x0: "0 \<le> to_double x" and x1: "to_double x \<le> 1"
    using to_double_unit [of x] by simp_all
  have "round_half_even 0 \<le> round_half_even (to_double x * 1000)"
    by (rule round_half_even_mono) (use x0 in simp)
  then have lo: "0 \<le> round_half_even (to_double x * 1000)" by simp
  have "round_half_even (to_double x * 1000) \<le> round_half_even 1000"
    by (rule round_half_even_mono) (use x1 in simp)
  then have hi: "round_half_even (to_double x * 1000) \<le> 1000" by simp
  show ?thesis using lo hi unfolding py_round_def by simp
qed

lemma py_round3_error:
  "0 \<le> x \<Longrightarrow> x \<le> 1 \<Longrightarrow> \<bar>py_round x 3 - x\<bar> \<le> 1 / 2000 + 1 / 2 ^ 53"
proof -
  assume "0 \<le> x" and "x \<le> 1"
  then have d: "\<bar>to_double x - x\<bar> \<le> 1 / 2 ^ 53" using to_double_unit [of x] by simp
  define r where "r = real_of_int (round_half_even (to_double x * 1000))"
  have "to_double x * 1000 - 1 / 2 \<le> r \<and> r \<le> to_double x * 1000 + 1 / 2"
    unfolding r_def by (rule round_half_even_bounds)
  then have "\<bar>r / 1000 - to_double x\<bar> \<le> 1 / 2000" by linarith
  then have "\<bar>py_round x 3 - to_double x\<bar> \<le> 1 / 2000"
    unfolding py_round_def r_def by simp
  then show ?thesis using d by linarith
qed

lemma py_round_values:
  "py_round (79 / 100) 3 = 79 / 100" "py_round (23 / 50) 3 = 23 / 50"
  "py_round (21 / 50) 3 = 21 / 50" "py_round (3 / 5) 3 = 3 / 5"
  "py_round (39 / 50) 3 = 39 / 50" "py_round (1 / 3) 3 = 333 / 1000"
  "py_round 10 2 = 10"
  unfolding py_round_def to_double_def round_half_even_def Let_def
  by (simp_all add: normalize_unfold del: normalize.simps)

lemma counter_get_add:
  "counter_get (counter_add k c) k' = counter_get c k' + (if k = k' then 1 else 0)"
  by (induction c) (auto simp: counter_get_def)

lemma counter_total_add: "counter_total (counter_add k c) = counter_total c + 1"
  by (induction c) (auto simp: counter_total_def)

lemma counter_get_update:
  "counter_get (counter_update c xs) k = counter_get c k + count_list xs k"
  unfolding counter_update_def
  by (induction xs arbitrary: c) (auto simp: counter_get_add)

lemma counter_total_update: "counter_total (counter_update c xs) = counter_total c + length xs"
  unfolding counter_update_def
  by (induction xs arbitrary: c) (auto simp: counter_total_add)

lemma counter_update_append:
  "counter_update (counter_update c xs) ys = counter_update c (xs @ ys)"
  by (simp add: counter_update_def)

lemma sum_indicator_distinct:
  "distinct ws \<Longrightarrow> (\<Sum>w\<leftarrow>ws. if x = w then 1 else 0) = (if x \<in> set ws then 1 else (0::nat))"
  by (induction ws) auto

lemma sum_count_list_distinct:
  "distinct ws \<Longrightarrow> (\<Sum>w\<leftarrow>ws. count_list xs w) = length (filter (\<lambda>x. x \<in> set ws) xs)"
proof (induction xs)
  case Nil
  then show ?case by simp
next
  case (Cons x xs)
  have "(\<Sum>w\<leftarrow>ws. count_list (x # xs) w)
      = (\<Sum>w\<leftarrow>ws. count_list xs w) + (\<Sum>w\<leftarrow>ws. if x = w then 1 else 0)"
    by (induction ws) auto
  then show ?case using Cons by (simp add: sum_indicator_distinct)
qed

section \<open>The personality analyzer\<close>

lemma aggregate_features_ok:
  "map (extract_features b) texts = map Inr fs \<Longrightarrow>
   aggregate_features b fts texts =
     Inr \<lparr>word_freq = counter_update (word_freq fts) (concat (map words fs)),
          all_pos_tags = counter_update (all_pos_tags fts) (concat (map pos_tags fs)),
          sentiments = sentiments fts @ map sentiment fs,
          avg_length = avg_length fts @ map text_length fs,
          all_complexity = all_complexity fts @ map complexity fs\<rparr>"
proof (induction texts arbitrary: fts fs)
  case Nil
  then show ?case by (simp add: counter_update_def)
next
  case (Cons t texts)
  then obtain f fs' where fs: "fs = f # fs'" and f: "extract_features b t = Inr f"
    and rest: "map (extract_features b) texts = map Inr fs'"
    by (cases fs) auto
  show ?case
    using Cons.IH [OF rest] by (simp add: f fs counter_update_append)
qed

lemma counter_get_empty [simp]: "counter_get [] k = 0"
  by (simp add: counter_get_def)

lemma counter_total_empty [simp]: "counter_total [] = 0"
  by (simp add: counter_total_def)

lemma max_min_clamp01: "max 0 (min 1 x) = clamp01 x"
  by (simp add: clamp01_def max_def min_def)

lemma calculate_trait_score_spec:
  assumes "distinct (ind_words ind)" "distinct (ind_pos_tags ind)"
  shows "calculate_trait_score_with ops trait ind
           \<lparr>word_freq = counter_update [] (concat (map words fs)),
            all_pos_tags = counter_update [] (concat (map pos_tags fs)),
            sentiments = map sentiment fs,
            avg_length = ls, all_complexity = cs\<rparr>
         = spec_trait_score ops ind fs"
proof -
  have w: "(\<Sum>w\<leftarrow>ind_words ind. counter_get (counter_update [] (concat (map words fs))) w)
         = length (filter (\<lambda>w. w \<in> set (ind_words ind)) (concat (map words fs)))"
    using assms(1) by (simp add: counter_get_update sum_count_list_distinct)
  have p: "(\<Sum>w\<leftarrow>ind_pos_tags ind. counter_get (counter_update [] (concat (map pos_tags fs))) w)
         = length (filter (\<lambda>w. w \<in> set (ind_pos_tags ind)) (concat (map pos_tags fs)))"
    using assms(2) by (simp add: counter_get_update sum_count_list_distinct)
  show ?thesis
    unfolding calculate_trait_score_with_def spec_trait_score_def Let_def
    by (simp add: w p counter_total_update max_min_clamp01
          del: length_concat length_filter_conv_card)
qed

lemma TRAIT_INDICATORS_distinct:
  "(t, ind) \<in> set TRAIT_INDICATORS \<Longrightarrow> distinct (ind_words ind) \<and> distinct (ind_pos_tags ind)"
  unfolding TRAIT_INDICATORS_def by auto

lemma analyze_texts_refines:
  assumes "texts \<noteq> []" and "map (extract_features b) texts = map Inr fs"
  shows "analyze_texts_with ops b texts =
           Inr (map (\<lambda>(trait, ind). (trait, spec_trait_score ops ind fs)) TRAIT_INDICATORS)"
proof -
  have "map (\<lambda>(trait, ind). (trait, calculate_trait_score_with ops trait ind
           \<lparr>word_freq = counter_update [] (concat (map words fs)),
            all_pos_tags = counter_update [] (concat (map pos_tags fs)),
            sentiments = map sentiment fs,
            avg_length = map text_length fs, all_complexity = map complexity fs\<rparr>))
          TRAIT_INDICATORS
      = map (\<lambda>(trait, ind). (trait, spec_trait_score ops ind fs)) TRAIT_INDICATORS"
    by (rule map_cong) (auto simp: calculate_trait_score_spec dest: TRAIT_INDICATORS_distinct)
  then show ?thesis
    unfolding analyze_texts_with_def using assms(1) aggregate_features_ok [OF assms(2)]
    by simp
qed

lemma calculate_trait_score_unit:
  "0 \<le> calculate_trait_score trait ind fts \<and> calculate_trait_score trait ind fts \<le> 1"
  unfolding calculate_trait_score_def calculate_trait_score_with_def exact_ops_def Let_def
    float_ops.select_convs
  by (rule py_round3_unit) simp_all

lemma analyze_texts_unfold:
  "analyze_texts b texts =
     (if texts = [] then Inr default_personality
      else
        case aggregate_features b
               \<lparr>word_freq = [], all_pos_tags = [], sentiments = [], avg_length = [],
                all_complexity = []\<rparr> texts of
          Inl e \<Rightarrow> Inl e
        | Inr fts \<Rightarrow>
            Inr (map (\<lambda>(trait, ind). (trait, calculate_trait_score trait ind fts))
                   TRAIT_INDICATORS))"
  unfolding analyze_texts_def analyze_texts_with_def calculate_trait_score_def by (rule refl)

lemma TRAIT_INDICATORS_keys:
  "map fst TRAIT_INDICATORS =
     [''openness'', ''conscientiousness'', ''extraversion'', ''agreeableness'', ''neuroticism'']"
  by (simp add: TRAIT_INDICATORS_def)

lemma lower_sample: "lower ''creative'' = ''creative''" "lower ''day'' = ''day''"
  by (simp_all add: lower_def lower_char_def)

lemma extract_sample:
  "map (extract_features sample_nlp) [''creative'', ''day''] = map Inr sample_features"
  by (simp add: extract_features_def sample_nlp_def sample_features_def lower_sample np_mean_def)

lemma spec_scores_sample:
  "map (\<lambda>(trait, ind). (trait, spec_trait_score exact_ops ind sample_features)) TRAIT_INDICATORS
     = [(''openness'', 0.79), (''conscientiousness'', 0.46), (''extraversion'', 0.42),
        (''agreeableness'', 0.6), (''neuroticism'', 0.78)]"
  by (simp add: TRAIT_INDICATORS_def spec_trait_score_def sample_features_def clamp01_def
        exact_ops_def np_mean_def py_round_values)

lemma analyze_sample:
  "analyze_texts sample_nlp [''creative'', ''day'']
     = Inr [(''openness'', 0.79), (''conscientiousness'', 0.46), (''extraversion'', 0.42),
            (''agreeableness'', 0.6), (''neuroticism'', 0.78)]"
  unfolding analyze_texts_def
  using analyze_texts_refines [OF _ extract_sample, of exact_ops]
  by (simp add: spec_scores_sample)

text \<open>
  Claim C6. On the empty list of texts \<open>analyze_texts\<close> returns the fixed default scores
  (0.5 for openness, conscientiousness, extraversion and agreeableness, 0.3 for
  neuroticism) whatever the language libraries would do: they are not consulted and no
  score is computed.
\<close>

theorem analyze_texts_empty_default:
  "analyze_texts b [] =
     Inr [(''openness'', 0.5), (''conscientiousness'', 0.5), (''extraversion'', 0.5),
          (''agreeableness'', 0.5), (''neuroticism'', 0.3)]"
  by (simp add: analyze_texts_unfold default_personality_def)

text \<open>
  Claim C2. Whatever list of texts it is given, empty or not, the scores that
  \<open>analyze_texts\<close> returns have exactly the five trait keys openness,
  conscientiousness, extraversion, agreeableness and neuroticism, each once, and every
  value lies between 0 and 1.
\<close>

theorem analyze_texts_keys_and_range:
  assumes "analyze_texts b texts = Inr scores"
  shows "map fst scores =
           [''openness'', ''conscientiousness'', ''extraversion'', ''agreeableness'',
            ''neuroticism'']
         \<and> (\<forall>(trait, v) \<in> set scores. 0 \<le> v \<and> v \<le> 1)"
proof (cases "texts = []")
  case True
  then have "scores = default_personality"
    using assms by (simp add: analyze_texts_unfold)
  then show ?thesis by (simp add: default_personality_def)
next
  case False
  then obtain fts where
    "scores = map (\<lambda>(trait, ind). (trait, calculate_trait_score trait ind fts)) TRAIT_INDICATORS"
    using assms by (auto simp: analyze_texts_unfold split: sum.splits)
  then show ?thesis
    using calculate_trait_score_unit
    by (auto simp: TRAIT_INDICATORS_keys [symmetric] split_beta comp_def)
qed

theorem analyze_texts_keys_and_range_witness:
  "analyze_texts sample_nlp [''creative'', ''day'']
     = Inr [(''openness'', 0.79), (''conscientiousness'', 0.46), (''extraversion'', 0.42),
            (''agreeableness'', 0.6), (''neuroticism'', 0.78)]
   \<and> map fst [(''openness'', 0.79 :: real), (''conscientiousness'', 0.46),
               (''extraversion'', 0.42), (''agreeableness'', 0.6), (''neuroticism'', 0.78)]
       = [''openness'', ''conscientiousness'', ''extraversion'', ''agreeableness'',
          ''neuroticism'']
   \<and> list_all (\<lambda>(trait, v). 0 \<le> v \<and> v \<le> 1)
         [(''openness'', 0.79 :: real), (''conscientiousness'', 0.46),
          (''extraversion'', 0.42), (''agreeableness'', 0.6), (''neuroticism'', 0.78)]"
  using analyze_texts_keys_and_range [OF analyze_sample] analyze_sample
  unfolding list_all_iff by blast

text \<open>
  Claim C3. For a non-empty list of texts whose features are extracted without an
  exception, the score of each of the five traits is
  \<open>round(clamp(0.5 + word_ratio * 0.3 + pos_ratio * 0.2 + mean_sentiment * weight, 0, 1), 3)\<close>,
  the operations being the float operations of the code, applied from left to right:
  \<open>word_ratio\<close> is the number of indicator-word occurrences among all lemmas over the
  number of lemmas (the term is left out when there is no lemma), \<open>pos_ratio\<close> the number
  of indicator tags among all tags over the number of tags (the term is left out when
  there is no tag), \<open>mean_sentiment\<close> the mean of the sentiments of the texts.
\<close>

theorem trait_score_formula:
  assumes "texts \<noteq> []" and "map (extract_features b) texts = map Inr fs"
  shows "analyze_texts_with ops b texts =
           Inr (map (\<lambda>(trait, ind). (trait, spec_trait_score ops ind fs)) TRAIT_INDICATORS)"
  using assms by (rule analyze_texts_refines)

theorem trait_score_formula_witness:
  "[''creative'', ''day''] \<noteq> []
   \<and> map (extract_features sample_nlp) [''creative'', ''day''] = map Inr sample_features
   \<and> analyze_texts_with exact_ops sample_nlp [''creative'', ''day'']
       = Inr [(''openness'', 0.79), (''conscientiousness'', 0.46), (''extraversion'', 0.42),
              (''agreeableness'', 0.6), (''neuroticism'', 0.78)]"
proof -
  have ne: "[''creative'', ''day''] \<noteq> []" by simp
  have "analyze_texts_with exact_ops sample_nlp [''creative'', ''day'']
       = Inr [(''openness'', 0.79), (''conscientiousness'', 0.46), (''extraversion'', 0.42),
              (''agreeableness'', 0.6), (''neuroticism'', 0.78)]"
    using trait_score_formula [OF ne extract_sample, of exact_ops]
    by (simp only: spec_scores_sample)
  then show ?thesis using ne extract_sample by blast
qed

section \<open>Too few texts, failing backends, cosine similarity\<close>

text \<open>
  Claim C1, as stated, at one text and five clusters: the topic operation
  \<open>learn_content_topics\<close> returns no cluster at all, not one singleton cluster.
\<close>

theorem content_topics_few_texts_counterexample:
  "learn_content_topics sample_sklearn [''good morning''] 5 = Inr []"
  by (simp add: learn_content_topics_def)

text \<open>
  Claim C1, amended. With fewer texts than requested clusters, \<open>learn_content_topics\<close>
  returns the empty list, whereas \<open>cluster_texts\<close> of the embedding service returns exactly
  \<open>len(texts)\<close> singleton clusters, the \<open>i\<close>-th holding the index \<open>i\<close>; neither raises.
\<close>

theorem few_texts_degrade:
  assumes "int (length texts) < k"
  shows "learn_content_topics sk texts k = Inr []
       \<and> (\<exists>clusters. cluster_texts m sk texts k = Inr clusters
            \<and> length clusters = length texts
            \<and> (\<forall>i < length texts. clusters ! i = [i]))"
  using assms by (simp add: learn_content_topics_def cluster_texts_def singletons_def)

theorem few_texts_degrade_witness:
  "int (length [''one'', ''two'']) < 5
   \<and> learn_content_topics sample_sklearn [''one'', ''two''] 5 = Inr []
   \<and> cluster_texts sample_model sample_sklearn [''one'', ''two''] 5 = Inr [[0], [1]]"
proof -
  have h: "int (length [''one'', ''two'']) < 5" by simp
  obtain clusters where c: "cluster_texts sample_model sample_sklearn [''one'', ''two''] 5 = Inr clusters"
     "length clusters = 2" "clusters ! 0 = [0]" "clusters ! 1 = [1]"
    using few_texts_degrade [OF h, of sample_sklearn sample_model] by auto
  then have "clusters = [[0], [1]]"
    by (cases clusters; cases "tl clusters") auto
  then show ?thesis using c few_texts_degrade [OF h, of sample_sklearn sample_model] by simp
qed

text \<open>
  Claim C9. If encoding either text fails, \<open>similarity\<close> returns 0.0 and raises nothing;
  if both texts are encoded (to vectors of one dimension and non-zero norm) it returns the
  dot product of the two embeddings divided by the product of their norms.
\<close>

theorem similarity_cosine_or_zero:
  "(encode m a = Inl e \<or> encode m b = Inl e \<longrightarrow> similarity m a b = Inr 0)
   \<and> (encode m a = Inr u \<and> encode m b = Inr v \<and> length u = length v
        \<and> np_norm u \<noteq> 0 \<and> np_norm v \<noteq> 0
      \<longrightarrow> similarity m a b = Inr ((\<Sum>(x, y)\<leftarrow>zip u v. x * y) / (np_norm u * np_norm v)))"
  by (auto simp: similarity_def similarity_try_def np_dot_def split: sum.splits)

lemma encode_sample:
  "encode sample_model '''' = Inl BackendError"
  "encode sample_model ''a'' = Inr [1, 0]"
  "encode sample_model ''bb'' = Inr [0, 1]"
  by (simp_all add: encode_def sample_model_def)

lemma np_norm_sample: "np_norm [1, 0] = 1" "np_norm [0, 1] = 1" "np_norm [- 1, 0] = 1"
  by (simp_all add: np_norm_def)

theorem similarity_cosine_or_zero_witness:
  "similarity sample_model '''' ''a'' = Inr 0 \<and> similarity sample_model ''a'' ''bb'' = Inr 0
   \<and> similarity sample_model ''a'' ''a'' = Inr 1"
  using similarity_cosine_or_zero [of sample_model "''''" BackendError "''a''"]
        similarity_cosine_or_zero [of sample_model "''a''" _ "''bb''" "[1, 0]" "[0, 1]"]
        similarity_cosine_or_zero [of sample_model "''a''" _ "''a''" "[1, 0]" "[1, 0]"]
  by (simp add: encode_sample np_norm_sample)

text \<open>
  Claim C10. \<open>find_similar\<close> and \<open>learn_content_topics\<close> always return a list and never
  an exception: whenever a step inside their \<open>try\<close> block raises (encoding the query,
  encoding the candidates, the TF-IDF fit, k-means or anything after them) the result is
  the empty list, the same value as an empty answer.
\<close>

theorem backend_failures_become_empty:
  "(\<exists>r. find_similar m q cs k = Inr r)
   \<and> (\<exists>ts. learn_content_topics sk tw n = Inr ts)
   \<and> (find_similar_try m q cs k = Inl e \<longrightarrow> find_similar m q cs k = Inr [])
   \<and> (learn_content_topics_try sk tw n = Inl e \<longrightarrow> learn_content_topics sk tw n = Inr [])
   \<and> (model_encode m q = Inl e \<longrightarrow> find_similar m q cs k = Inr [])
   \<and> (cs \<noteq> [] \<and> model_encode_batch m cs 32 = Inl e \<longrightarrow> find_similar m q cs k = Inr [])
   \<and> (fit_transform sk tw = Inl e \<longrightarrow> learn_content_topics sk tw n = Inr [])
   \<and> (fit_transform sk tw = Inr (X, names) \<and> kmeans sk X n = Inl e
        \<longrightarrow> learn_content_topics sk tw n = Inr [])"
  by (auto simp: find_similar_def find_similar_try_def encode_def encode_batch_def
        learn_content_topics_def learn_content_topics_try_def split: sum.splits)

theorem backend_failures_become_empty_witness:
  "model_encode sample_model '''' = Inl BackendError
   \<and> find_similar sample_model '''' [''a'', ''bb''] 5 = Inr []
   \<and> fit_transform sample_sklearn [''apple'', ''banana'', ''cherry'']
        = Inr ([[1, 0, 0], [0, 1, 0], [0, 0, 1]], [''apple'', ''banana'', ''cherry''])
   \<and> kmeans sample_sklearn [[1, 0, 0], [0, 1, 0], [0, 0, 1]] 0 = Inl ValueError
   \<and> learn_content_topics sample_sklearn [''apple'', ''banana'', ''cherry''] 0 = Inr []"
  using backend_failures_become_empty [of sample_model "''''" "[''a'', ''bb'']" 5 sample_sklearn
          "[''apple'', ''banana'', ''cherry'']" 0 BackendError]
        backend_failures_become_empty [of sample_model "''''" "[''a'', ''bb'']" 5 sample_sklearn
          "[''apple'', ''banana'', ''cherry'']" 0 ValueError "[[1, 0, 0], [0, 1, 0], [0, 0, 1]]"
          "[''apple'', ''banana'', ''cherry'']"]
  by (simp add: sample_model_def sample_sklearn_def)

section \<open>Ranking by similarity\<close>









lemma sample_sort: "sort_desc snd [(0::nat, 1::real), (1, 0), (2, 1)] = [(0, 1), (2, 1), (1, 0)]"
  by (simp add: sort_desc_def)




section \<open>Topic prominence\<close>

lemma topics_loop_fields:
  "topics_loop sk n labels centers names idxs = Inr ts \<Longrightarrow>
   map tweet_count ts = map (count_list labels) idxs
   \<and> map prominence ts = map (\<lambda>i. py_round (real (count_list labels i) / real n) 3) idxs"
proof (induction idxs arbitrary: ts)
  case Nil
  then show ?case by simp
next
  case (Cons i idxs)
  then obtain t ts' where t: "make_topic sk n labels centers names i = Inr t"
    and ts': "topics_loop sk n labels centers names idxs = Inr ts'" and ts: "ts = t # ts'"
    by (auto split: sum.splits)
  have "tweet_count t = count_list labels i
      \<and> prominence t = py_round (real (count_list labels i) / real n) 3"
    using t by (auto simp: make_topic_def Let_def split: sum.splits)
  then show ?case using Cons.IH [OF ts'] ts by simp
qed

lemma sum_count_list_upt:
  "\<forall>l \<in> set labels. l < K \<Longrightarrow> (\<Sum>i\<leftarrow>[0..<K]. count_list labels i) = length labels"
proof -
  assume a: "\<forall>l \<in> set labels. l < K"
  have "(\<Sum>i\<leftarrow>[0..<K]. count_list labels i) = length (filter (\<lambda>x. x \<in> set [0..<K]) labels)"
    by (rule sum_count_list_distinct) simp
  also have "filter (\<lambda>x. x \<in> set [0..<K]) labels = labels"
    using a by (simp add: filter_id_conv)
  finally show ?thesis .
qed

lemma sum_list_mset_cong:
  "mset xs = mset ys \<Longrightarrow> sum_list (map f xs) = (sum_list (map f ys) :: 'b :: comm_monoid_add)"
  by (metis mset_map sum_mset_sum_list)

lemma sum_py_round3_error:
  "\<forall>i \<in> set idxs. 0 \<le> g i \<and> g i \<le> 1 \<Longrightarrow>
   \<bar>(\<Sum>i\<leftarrow>idxs. py_round (g i) 3) - (\<Sum>i\<leftarrow>idxs. g i)\<bar>
     \<le> real (length idxs) * (1 / 2000 + 1 / 2 ^ 53)"
proof (induction idxs)
  case Nil
  then show ?case by simp
next
  case (Cons i idxs)
  define a where "a = py_round (g i) 3 - g i"
  define b where "b = (\<Sum>i\<leftarrow>idxs. py_round (g i) 3) - (\<Sum>i\<leftarrow>idxs. g i)"
  define c :: real where "c = 1 / 2000 + 1 / 2 ^ 53"
  have "\<bar>a\<bar> \<le> c" unfolding a_def c_def using Cons.prems by (intro py_round3_error) simp_all
  moreover have "\<bar>b\<bar> \<le> real (length idxs) * c"
    unfolding b_def c_def using Cons.prems by (intro Cons.IH) simp
  moreover have "(\<Sum>i\<leftarrow>i # idxs. py_round (g i) 3) - (\<Sum>i\<leftarrow>i # idxs. g i) = a + b"
    by (simp add: a_def b_def)
  moreover have "real (length (i # idxs)) * c = c + real (length idxs) * c"
    by (simp add: algebra_simps)
  ultimately show ?case unfolding c_def [symmetric] by linarith
qed

lemma sum_list_divide: "(\<Sum>i\<leftarrow>idxs. real (c i) / d) = real (\<Sum>i\<leftarrow>idxs. c i) / d"
  by (induction idxs) (simp_all add: add_divide_distrib)

lemma make_topic_fields:
  "make_topic sk n labels centers names i = Inr t \<Longrightarrow>
   tweet_count t = count_list labels i
   \<and> prominence t = py_round (real (count_list labels i) / real n) 3"
  by (auto simp: make_topic_def Let_def split: sum.splits)

lemma topics_loop_each:
  "topics_loop sk n labels centers names idxs = Inr ts \<Longrightarrow> t \<in> set ts \<Longrightarrow>
   prominence t = py_round (real (tweet_count t) / real n) 3"
proof (induction idxs arbitrary: ts)
  case Nil
  then show ?case by simp
next
  case (Cons i idxs)
  then obtain t0 ts' where t0: "make_topic sk n labels centers names i = Inr t0"
    and ts': "topics_loop sk n labels centers names idxs = Inr ts'" and ts: "ts = t0 # ts'"
    by (auto split: sum.splits)
  show ?case
  proof (cases "t = t0")
    case True
    then show ?thesis using make_topic_fields [OF t0] by simp
  next
    case False
    then have "t \<in> set ts'" using Cons.prems(2) ts by simp
    then show ?thesis using Cons.IH [OF ts'] by simp
  qed
qed

text \<open>
  Claim C4, amended. When \<open>learn_content_topics\<close> runs the clustering (at least
  \<open>n_clusters\<close> tweets, at least one) and TF-IDF, k-means and the keyword lookup succeed
  with one label below \<open>n_clusters\<close> per tweet, it returns \<open>n_clusters\<close> topics whose
  member counts sum to the number of tweets; each prominence is the float quotient of the
  member count and the number of tweets, rounded to 3 decimal digits, so the prominences
  sum to 1.0 within \<open>n_clusters * (0.0005 + 2^-53)\<close>.
\<close>

theorem prominence_sum_rounded:
  assumes "k \<le> int (length tweets)" and "tweets \<noteq> []"
    and "fit_transform sk tweets = Inr (X, names)"
    and "kmeans sk X k = Inr (labels, centers)"
    and "length labels = length tweets" and "\<forall>l \<in> set labels. l < nat k"
    and "learn_content_topics_try sk tweets k = Inr topics"
  shows "learn_content_topics sk tweets k = Inr topics
       \<and> length topics = nat k
       \<and> sum_list (map tweet_count topics) = length tweets
       \<and> (\<forall>t \<in> set topics.
             prominence t = py_round (real (tweet_count t) / real (length tweets)) 3)
       \<and> \<bar>sum_list (map prominence topics) - 1\<bar> \<le> real (nat k) * (1 / 2000 + 1 / 2 ^ 53)"
proof -
  let ?n = "length tweets"
  let ?K = "[0..<nat k]"
  obtain ts where loop: "topics_loop sk ?n labels centers names ?K = Inr ts"
    and topics: "topics = sort_desc prominence ts"
    using assms(3,4,7) by (auto simp: learn_content_topics_try_def split: sum.splits)
  have ms: "mset topics = mset ts" by (simp add: topics sort_desc_def)
  have counts: "map tweet_count ts = map (count_list labels) ?K"
    and proms: "map prominence ts
                  = map (\<lambda>i. py_round (real (count_list labels i) / real ?n) 3) ?K"
    using topics_loop_fields [OF loop] by simp_all
  have lts: "length ts = length ?K"
    using arg_cong [OF counts, of length] by simp
  have len: "length topics = nat k"
    using mset_eq_length [OF ms] lts by simp
  have total: "sum_list (map tweet_count topics) = ?n"
    using sum_list_mset_cong [OF ms, of tweet_count] counts sum_count_list_upt [OF assms(6)]
      assms(5) by simp
  have each: "\<forall>t \<in> set topics. prominence t = py_round (real (tweet_count t) / real ?n) 3"
  proof
    fix t assume "t \<in> set topics"
    then have "t \<in> set ts" using mset_eq_setD [OF ms] by simp
    then show "prominence t = py_round (real (tweet_count t) / real ?n) 3"
      by (rule topics_loop_each [OF loop])
  qed
  have "(\<Sum>i\<leftarrow>?K. real (count_list labels i) / real ?n)
          = real (\<Sum>i\<leftarrow>?K. count_list labels i) / real ?n"
    by (rule sum_list_divide)
  also have "\<dots> = real ?n / real ?n"
    using sum_count_list_upt [OF assms(6)] assms(5) by (simp only:)
  also have "\<dots> = 1" using assms(2) by simp
  finally have one: "(\<Sum>i\<leftarrow>?K. real (count_list labels i) / real ?n) = 1" .
  have "sum_list (map prominence topics) = sum_list (map prominence ts)"
    by (rule sum_list_mset_cong [OF ms])
  also have "\<dots> = (\<Sum>i\<leftarrow>?K. py_round (real (count_list labels i) / real ?n) 3)"
    by (simp only: proms)
  finally have ps: "sum_list (map prominence topics)
                 = (\<Sum>i\<leftarrow>?K. py_round (real (count_list labels i) / real ?n) 3)" .
  have "\<bar>(\<Sum>i\<leftarrow>?K. py_round (real (count_list labels i) / real ?n) 3)
          - (\<Sum>i\<leftarrow>?K. real (count_list labels i) / real ?n)\<bar>
          \<le> real (length ?K) * (1 / 2000 + 1 / 2 ^ 53)"
  proof (rule sum_py_round3_error, rule ballI)
    fix i
    have "count_list labels i \<le> ?n" using count_le_length [of labels i] assms(5) by simp
    then show "0 \<le> real (count_list labels i) / real ?n
             \<and> real (count_list labels i) / real ?n \<le> 1"
      using assms(2) by simp
  qed
  then have err: "\<bar>sum_list (map prominence topics) - 1\<bar>
                    \<le> real (nat k) * (1 / 2000 + 1 / 2 ^ 53)"
    by (simp only: ps one length_upt diff_zero)
  have "learn_content_topics sk tweets k = Inr topics"
    using assms(1,7) by (simp add: learn_content_topics_def)
  then show ?thesis using len total err each by (simp only: simp_thms)
qed

lemma sample_fit:
  "fit_transform sample_sklearn [''apple'', ''banana'', ''cherry'']
     = Inr ([[1, 0, 0], [0, 1, 0], [0, 0, 1]], [''apple'', ''banana'', ''cherry''])"
  by (simp add: sample_sklearn_def)

lemma sample_kmeans:
  "kmeans sample_sklearn [[1, 0, 0], [0, 1, 0], [0, 0, 1]] 3
     = Inr ([0, 1, 2], [[1, 0, 0], [0, 1, 0], [0, 0, 1]])"
  by (simp add: sample_sklearn_def)

lemma sample_argsort:
  "argsort sample_sklearn [1, 0, 0] = [1, 2, 0]"
  "argsort sample_sklearn [0, 1, 0] = [0, 2, 1]"
  "argsort sample_sklearn [0, 0, 1] = [0, 1, 2]"
  by (simp_all add: sample_sklearn_def upt_rec)

lemma py_round_third_Suc: "py_round (1 / 3) (Suc (Suc (Suc 0))) = 333 / 1000"
  using py_round_values(6) by (simp only: numeral_3_eq_3)

lemma sample_make_topic:
  "make_topic sample_sklearn 3 [0, 1, 2] [[1, 0, 0], [0, 1, 0], [0, 0, 1]]
     [''apple'', ''banana'', ''cherry''] 0 = Inr (sample_topics ! 0)"
  "make_topic sample_sklearn 3 [0, 1, 2] [[1, 0, 0], [0, 1, 0], [0, 0, 1]]
     [''apple'', ''banana'', ''cherry''] 1 = Inr (sample_topics ! 1)"
  "make_topic sample_sklearn 3 [0, 1, 2] [[1, 0, 0], [0, 1, 0], [0, 0, 1]]
     [''apple'', ''banana'', ''cherry''] 2 = Inr (sample_topics ! 2)"
  unfolding make_topic_def last_n_def sample_topics_def
  by (simp_all add: sample_argsort eval_nat_numeral py_round_third_Suc)

lemma upt_nat_3: "[0..<nat 3] = [0, 1, 2]"
  by (simp add: upt_rec)

lemma sample_topics_nth:
  "[sample_topics ! 0, sample_topics ! 1, sample_topics ! 2] = sample_topics"
  by (simp add: sample_topics_def)

lemma sample_topics_loop:
  "topics_loop sample_sklearn 3 [0, 1, 2] [[1, 0, 0], [0, 1, 0], [0, 0, 1]]
     [''apple'', ''banana'', ''cherry''] [0, 1, 2] = Inr sample_topics"
  by (simp only: topics_loop.simps sample_make_topic sum.case sample_topics_nth)

lemma sample_sorted: "sort_desc prominence sample_topics = sample_topics"
  by (simp add: sort_desc_def sample_topics_def)

lemma sample_try:
  "learn_content_topics_try sample_sklearn [''apple'', ''banana'', ''cherry''] 3
     = Inr sample_topics"
proof -
  have len: "length [''apple'', ''banana'', ''cherry''] = 3" by simp
  show ?thesis
    unfolding learn_content_topics_try_def
    by (simp only: sample_fit sample_kmeans sum.case prod.case len upt_nat_3 sample_topics_loop
          sample_sorted)
qed

lemma sample_learn:
  "learn_content_topics sample_sklearn [''apple'', ''banana'', ''cherry''] 3 = Inr sample_topics"
  by (simp add: learn_content_topics_def sample_try)

text \<open>
  Claim C4, as stated, at three tweets of one word each and three clusters: each tweet is
  alone in its cluster, every prominence is \<open>round(1/3, 3) = 0.333\<close>, and the sum is 0.999,
  which is 0.001 away from 1.0.
\<close>

theorem prominence_sum_counterexample:
  "prominence_values (learn_content_topics sample_sklearn [''apple'', ''banana'', ''cherry''] 3)
     = [0.333, 0.333, 0.333]
   \<and> sum_list (prominence_values
         (learn_content_topics sample_sklearn [''apple'', ''banana'', ''cherry''] 3)) = 0.999"
  by (simp add: sample_learn prominence_values_def sample_topics_def)

theorem prominence_sum_rounded_witness:
  "3 \<le> int (length [''apple'', ''banana'', ''cherry''])
   \<and> [''apple'', ''banana'', ''cherry''] \<noteq> []
   \<and> fit_transform sample_sklearn [''apple'', ''banana'', ''cherry'']
        = Inr ([[1, 0, 0], [0, 1, 0], [0, 0, 1]], [''apple'', ''banana'', ''cherry''])
   \<and> kmeans sample_sklearn [[1, 0, 0], [0, 1, 0], [0, 0, 1]] 3
        = Inr ([0, 1, 2], [[1, 0, 0], [0, 1, 0], [0, 0, 1]])
   \<and> length [0, 1, 2 :: nat] = length [''apple'', ''banana'', ''cherry'']
   \<and> list_all (\<lambda>l. l < nat 3) [0, 1, 2 :: nat]
   \<and> learn_content_topics_try sample_sklearn [''apple'', ''banana'', ''cherry''] 3
        = Inr sample_topics
   \<and> learn_content_topics sample_sklearn [''apple'', ''banana'', ''cherry''] 3
        = Inr sample_topics
   \<and> length sample_topics = nat 3
   \<and> sum_list (map tweet_count sample_topics) = length [''apple'', ''banana'', ''cherry'']
   \<and> \<bar>sum_list (map prominence sample_topics) - 1\<bar> \<le> real (nat 3) * (1 / 2000 + 1 / 2 ^ 53)"
proof -
  have h1: "3 \<le> int (length [''apple'', ''banana'', ''cherry''])" by simp
  have h2: "[''apple'', ''banana'', ''cherry''] \<noteq> []" by simp
  have h5: "length [0, 1, 2 :: nat] = length [''apple'', ''banana'', ''cherry'']" by simp
  have h6: "\<forall>l \<in> set [0, 1, 2 :: nat]. l < nat 3" by simp
  show ?thesis
    using prominence_sum_rounded [OF h1 h2 sample_fit sample_kmeans h5 h6 sample_try]
      h1 h2 h5 h6 sample_fit sample_kmeans sample_try
    unfolding list_all_iff by (simp only: simp_thms)
qed

section \<open>Engagement and posting patterns\<close>

lemma engagement_loop_total:
  "list_all (interaction_ok p) interactions \<Longrightarrow>
   \<exists>types hours. engagement_loop p bt bh interactions = Inr (types, hours)"
proof (induction interactions arbitrary: bt bh)
  case Nil
  then show ?case by simp
next
  case (Cons i interactions)
  then have ok: "interaction_ok p i" and rest: "list_all (interaction_ok p) interactions"
    by simp_all
  show ?case
  proof (cases "dict_get i ''created_at'' PyNone")
    case PyNone
    then show ?thesis using ok Cons.IH [OF rest] by (simp add: interaction_ok_def Let_def)
  next
    case (PyStr s)
    then show ?thesis using ok Cons.IH [OF rest]
      by (cases "p (replace_Z s)")
         (auto simp: interaction_ok_def timestamp_ok_def parse_created_at_def Let_def)
  next
    case (PyDateTime d)
    then show ?thesis using ok Cons.IH [OF rest]
      by (simp add: interaction_ok_def parse_created_at_def Let_def)
  next
    case (PyInt n)
    then show ?thesis using ok Cons.IH [OF rest]
      by (simp add: interaction_ok_def timestamp_ok_def Let_def)
  next
    case (PyList xs)
    then show ?thesis using ok Cons.IH [OF rest]
      by (simp add: interaction_ok_def timestamp_ok_def Let_def)
  qed
qed

lemma engagement_returned_average:
  assumes "interactions \<noteq> []" and "learn_engagement_patterns p interactions = Inr r"
  shows "\<exists>pat. r = Some pat \<and> total_interactions pat = length interactions
           \<and> engagement_avg_per_day pat = real (length interactions) / 30"
  using assms by (auto simp: learn_engagement_patterns_def Let_def split: sum.splits)

text \<open>
  Claim C7, amended. For every non-empty interaction list whose interaction types are
  hashable and whose timestamps are well formed (absent or falsy, a datetime, or a string
  that \<open>fromisoformat\<close> accepts), \<open>learn_engagement_patterns\<close> returns a pattern whose
  \<open>avg_per_day\<close> is the number of interactions divided by 30, whatever the timestamps are;
  60 interactions give 2.0.
\<close>

theorem engagement_average_over_30:
  assumes "interactions \<noteq> []" and "list_all (interaction_ok p) interactions"
  shows "\<exists>pat. learn_engagement_patterns p interactions = Inr (Some pat)
           \<and> engagement_avg_per_day pat = real (length interactions) / 30
           \<and> (length interactions = 60 \<longrightarrow> engagement_avg_per_day pat = 2)"
proof -
  obtain types hours where "engagement_loop p [] [] interactions = Inr (types, hours)"
    using engagement_loop_total [OF assms(2)] by blast
  then obtain r where r: "learn_engagement_patterns p interactions = Inr r"
    using assms(1) by (simp add: learn_engagement_patterns_def Let_def)
  then obtain pat where "r = Some pat"
    "engagement_avg_per_day pat = real (length interactions) / 30"
    using engagement_returned_average [OF assms(1) r] by blast
  then show ?thesis using r by auto
qed

text \<open>
  Claim C7, as stated, at one interaction whose \<open>created_at\<close> is the string
  \<open>yesterday\<close>: \<open>fromisoformat\<close> raises ValueError, nothing catches it, and no pattern is
  reported.
\<close>

theorem engagement_malformed_timestamp_counterexample:
  "learn_engagement_patterns sample_fromisoformat
     [[(''interaction_type'', PyStr ''like''), (''created_at'', PyStr ''yesterday'')]]
   = Inl ValueError"
  by (simp add: learn_engagement_patterns_def dict_get_def parse_created_at_def
        sample_fromisoformat_def replace_Z_def)

lemma sample_interaction_ok:
  "interaction_ok sample_fromisoformat
     [(''interaction_type'', PyStr ''like''), (''created_at'', PyStr ''2024-01-01T14:00:00Z'')]"
  by (simp add: interaction_ok_def timestamp_ok_def dict_get_def replace_Z_def
        sample_fromisoformat_def)

theorem engagement_average_over_30_witness:
  "replicate 60 [(''interaction_type'', PyStr ''like''),
                 (''created_at'', PyStr ''2024-01-01T14:00:00Z'')] \<noteq> []
   \<and> list_all (interaction_ok sample_fromisoformat)
         (replicate 60 [(''interaction_type'', PyStr ''like''),
                        (''created_at'', PyStr ''2024-01-01T14:00:00Z'')])
   \<and> (\<exists>pat. learn_engagement_patterns sample_fromisoformat
                (replicate 60 [(''interaction_type'', PyStr ''like''),
                               (''created_at'', PyStr ''2024-01-01T14:00:00Z'')]) = Inr (Some pat)
           \<and> engagement_avg_per_day pat = 2)"
proof -
  let ?xs = "replicate 60 [(''interaction_type'', PyStr ''like''),
                           (''created_at'', PyStr ''2024-01-01T14:00:00Z'')]"
  have ne: "?xs \<noteq> []" by simp
  have ok: "list_all (interaction_ok sample_fromisoformat) ?xs"
    using sample_interaction_ok by (simp add: list_all_iff)
  have len: "length ?xs = 60" by simp
  show ?thesis
    using engagement_average_over_30 [OF ne ok] ne ok len by auto
qed

lemma created_dt_Some:
  "created_dt p tweet = Some d \<Longrightarrow>
   parse_created_at p (dict_get tweet ''created_at'' PyNone) = Inr (PyDateTime d)"
  by (auto simp: created_dt_def split: sum.splits pyval.splits)

lemma posting_loop_ok:
  "map (created_dt p) tweets = map Some ds \<Longrightarrow>
   posting_loop p tweets = Inr (map hour ds, map day_name ds)"
proof (induction tweets arbitrary: ds)
  case Nil
  then show ?case by simp
next
  case (Cons t tweets)
  then obtain d ds' where ds: "ds = d # ds'" and d: "created_dt p t = Some d"
    and rest: "map (created_dt p) tweets = map Some ds'"
    by (cases ds) auto
  show ?case
    using Cons.IH [OF rest] created_dt_Some [OF d] by (simp add: ds)
qed

lemma collect_dates_ok:
  "map (created_dt p) tweets = map Some ds \<Longrightarrow>
   collect_dates p tweets = Inr (map PyDateTime ds)"
proof (induction tweets arbitrary: ds)
  case Nil
  then show ?case by simp
next
  case (Cons t tweets)
  then obtain d ds' where ds: "ds = d # ds'" and d: "created_dt p t = Some d"
    and rest: "map (created_dt p) tweets = map Some ds'"
    by (cases ds) auto
  show ?case
    using Cons.IH [OF rest] created_dt_Some [OF d] by (simp add: ds)
qed

lemma counter_update_constant:
  "\<forall>x \<in> set xs. x = a \<Longrightarrow> counter_update [(a, n)] xs = [(a, n + length xs)]"
  unfolding counter_update_def by (induction xs arbitrary: n) auto

lemma counter_constant:
  "xs \<noteq> [] \<Longrightarrow> \<forall>x \<in> set xs. x = a \<Longrightarrow> counter_update [] xs = [(a, length xs)]"
proof -
  assume ne: "xs \<noteq> []" and all: "\<forall>x \<in> set xs. x = a"
  then obtain y ys where xs: "xs = y # ys" by (cases xs) auto
  then have "counter_update [] xs = counter_update [(a, 1)] ys"
    using all by (simp add: counter_update_def)
  also have "\<dots> = [(a, 1 + length ys)]"
    using all xs by (intro counter_update_constant) simp
  finally show ?thesis using xs by simp
qed

lemma most_common_single: "0 < n \<Longrightarrow> map fst (most_common n [(a, c)]) = [a]"
  by (cases n) (simp_all add: most_common_def sort_desc_def)

lemma those_datetimes: "those (map dt_of (map PyDateTime ds)) = Some ds"
  by (induction ds) simp_all

lemma max_from_mem:
  "(utcoffset cur = None) = b \<Longrightarrow> \<forall>d \<in> set ds. (utcoffset d = None) = b \<Longrightarrow>
   \<exists>mx \<in> set (cur # ds). max_from cur ds = Inr mx"
proof (induction ds arbitrary: cur)
  case Nil
  then show ?case by simp
next
  case (Cons d ds)
  have less: "dt_less cur d = Inr (dt_key cur < dt_key d)"
    using Cons.prems by (simp add: dt_less_def)
  have rest: "\<forall>d \<in> set ds. (utcoffset d = None) = b" using Cons.prems(2) by simp
  show ?case
  proof (cases "dt_key cur < dt_key d")
    case True
    have "(utcoffset d = None) = b" using Cons.prems(2) by simp
    from Cons.IH [OF this rest] obtain mx where "mx \<in> set (d # ds)" "max_from d ds = Inr mx"
      by blast
    then show ?thesis using less True by simp
  next
    case False
    from Cons.IH [OF Cons.prems(1) rest] obtain mx where
      "mx \<in> set (cur # ds)" "max_from cur ds = Inr mx" by blast
    then show ?thesis using less False by auto
  qed
qed

lemma min_from_mem:
  "(utcoffset cur = None) = b \<Longrightarrow> \<forall>d \<in> set ds. (utcoffset d = None) = b \<Longrightarrow>
   \<exists>mn \<in> set (cur # ds). min_from cur ds = Inr mn"
proof (induction ds arbitrary: cur)
  case Nil
  then show ?case by simp
next
  case (Cons d ds)
  have less: "dt_less d cur = Inr (dt_key d < dt_key cur)"
    using Cons.prems by (simp add: dt_less_def)
  have rest: "\<forall>d \<in> set ds. (utcoffset d = None) = b" using Cons.prems(2) by simp
  show ?case
  proof (cases "dt_key d < dt_key cur")
    case True
    have "(utcoffset d = None) = b" using Cons.prems(2) by simp
    from Cons.IH [OF this rest] obtain mn where "mn \<in> set (d # ds)" "min_from d ds = Inr mn"
      by blast
    then show ?thesis using less True by simp
  next
    case False
    from Cons.IH [OF Cons.prems(1) rest] obtain mn where
      "mn \<in> set (cur # ds)" "min_from cur ds = Inr mn" by blast
    then show ?thesis using less False by auto
  qed
qed

lemma comparable_aware:
  assumes "comparable ds" and "\<not> list_all (\<lambda>d. utcoffset d = None) ds"
    and "d \<in> set ds" and "d' \<in> set ds"
  shows "\<exists>off off'. utcoffset d = Some off \<and> utcoffset d' = Some off'
           \<and> off - off' \<le> 169200000000"
proof -
  have "list_all (\<lambda>d. list_all (\<lambda>d'.
            case (utcoffset d, utcoffset d') of
              (Some off, Some off') \<Rightarrow> off - off' \<le> 169200000000
            | _ \<Rightarrow> False) ds) ds"
    using assms(1,2) unfolding comparable_def by blast
  then have "case (utcoffset d, utcoffset d') of
              (Some off, Some off') \<Rightarrow> off - off' \<le> 169200000000
            | _ \<Rightarrow> False"
    using assms(3,4) unfolding list_all_iff by blast
  then show ?thesis by (cases "utcoffset d"; cases "utcoffset d'") simp_all
qed

lemma comparable_kind:
  "comparable ds \<Longrightarrow> \<exists>b. \<forall>d \<in> set ds. (utcoffset d = None) = b"
proof -
  assume c: "comparable ds"
  show ?thesis
  proof (cases "list_all (\<lambda>d. utcoffset d = None) ds")
    case True
    then have "\<forall>d \<in> set ds. (utcoffset d = None) = True" by (simp add: list_all_iff)
    then show ?thesis by blast
  next
    case False
    have "(utcoffset d = None) = False" if "d \<in> set ds" for d
      using comparable_aware [OF c False that that] by auto
    then show ?thesis by blast
  qed
qed

lemma local_us_same_hour:
  assumes "ordinal d = ordinal d'" "hour d = hour d'" "valid_time d" "valid_time d'"
  shows "local_us d - local_us d' < 3600000000"
  using assms unfolding local_us_def valid_time_def by simp

lemma dt_key_close:
  assumes "comparable ds" "d \<in> set ds" "d' \<in> set ds"
    and "ordinal d = ordinal d'" "hour d = hour d'" "valid_time d" "valid_time d'"
  shows "dt_key d - dt_key d' < 172800000000"
proof (cases "list_all (\<lambda>d. utcoffset d = None) ds")
  case True
  then have "utcoffset d = None" "utcoffset d' = None"
    using assms(2,3) by (simp_all add: list_all_iff)
  then show ?thesis
    using local_us_same_hour [OF assms(4-7)] by (simp add: dt_key_def)
next
  case False
  obtain off off' where "utcoffset d' = Some off" "utcoffset d = Some off'"
    "off - off' \<le> 169200000000"
    using comparable_aware [OF assms(1) False assms(3,2)] by blast
  then show ?thesis
    using local_us_same_hour [OF assms(4-7)] by (simp add: dt_key_def)
qed

lemma timedelta_days_small:
  "dt_key a - dt_key b < 172800000000 \<Longrightarrow> timedelta_days a b \<le> 1"
proof -
  assume "dt_key a - dt_key b < 172800000000"
  then have "dt_key a - dt_key b \<le> 172799999999" by simp
  then have "(dt_key a - dt_key b) div 86400000000 \<le> 172799999999 div 86400000000"
    by (rule zdiv_mono1) simp
  then show ?thesis by (simp add: timedelta_days_def)
qed

lemma py_round_10: "py_round 10 2 = 10"
  by (rule py_round_values)

lemma span_days_small:
  assumes "comparable ds" and "ds \<noteq> []"
    and "\<forall>d \<in> set ds. hour d = h \<and> ordinal d = m \<and> valid_time d"
  shows "\<exists>n. span_days (map PyDateTime ds) = Inr n \<and> n \<le> 1"
proof -
  obtain d0 ds' where ds: "ds = d0 # ds'" using assms(2) by (cases ds) auto
  obtain b where b: "\<forall>d \<in> set ds. (utcoffset d = None) = b"
    using comparable_kind [OF assms(1)] by blast
  then have b0: "(utcoffset d0 = None) = b" and b': "\<forall>d \<in> set ds'. (utcoffset d = None) = b"
    by (simp_all add: ds)
  obtain mx where mx: "mx \<in> set ds" "max_from d0 ds' = Inr mx"
    using max_from_mem [OF b0 b'] ds by auto
  obtain mn where mn: "mn \<in> set ds" "min_from d0 ds' = Inr mn"
    using min_from_mem [OF b0 b'] ds by auto
  have "dt_key mx - dt_key mn < 172800000000"
    using assms(3) mx(1) mn(1) by (intro dt_key_close [OF assms(1)]) simp_all
  then have "timedelta_days mx mn \<le> 1" by (rule timedelta_days_small)
  moreover have "span_days (map PyDateTime ds) = Inr (timedelta_days mx mn)"
    unfolding span_days_def those_datetimes using mx(2) mn(2) by (simp add: ds)
  ultimately show ?thesis by blast
qed

text \<open>
  Claim C8, amended. For every list of 10 tweets whose timestamps (datetimes, or strings
  that \<open>fromisoformat\<close> accepts) all fall at hour 14 on one and the same Monday, and are
  either all naive or all aware with UTC offsets at most 47 hours apart,
  \<open>learn_posting_patterns\<close> returns \<open>best_hours = [14]\<close>, \<open>best_days = ["Monday"]\<close> and
  \<open>avg_per_day = 10\<close>: the date span is floored at one day.
\<close>

theorem posting_same_monday_hour:
  assumes "length tweets = 10"
    and "map (created_dt p) tweets = map Some ds"
    and "\<forall>d \<in> set ds. hour d = 14 \<and> ordinal d = m \<and> valid_time d"
    and "(m + 6) mod 7 = 0"
    and "comparable ds"
  shows "learn_posting_patterns p tweets =
           Inr \<lparr>best_hours = [14], best_days = [''Monday''], avg_per_day = 10,
                total_analyzed = Some 10\<rparr>"
proof -
  have len: "length ds = 10"
    using arg_cong [OF assms(2), of length] assms(1) by simp
  then have ne: "ds \<noteq> []" "tweets \<noteq> []" using assms(1) by auto
  have loop: "posting_loop p tweets = Inr (map hour ds, map day_name ds)"
    by (rule posting_loop_ok [OF assms(2)])
  have "counter_update [] (map hour ds) = [(14, length (map hour ds))]"
    using ne(1) assms(3) by (intro counter_constant) auto
  then have hours: "map fst (most_common 5 (counter_update [] (map hour ds))) = [14]"
    by (simp add: most_common_single)
  have "counter_update [] (map day_name ds) = [(''Monday'', length (map day_name ds))]"
    using ne(1) assms(3,4) by (intro counter_constant) (auto simp: day_name_def)
  then have days: "map fst (most_common 3 (counter_update [] (map day_name ds))) = [''Monday'']"
    by (simp add: most_common_single)
  obtain n where n: "span_days (map PyDateTime ds) = Inr n" "n \<le> 1"
    using span_days_small [OF assms(5) ne(1) assms(3)] by blast
  have range: "calculate_date_range p tweets = Inr 1"
    using n len by (simp add: calculate_date_range_def collect_dates_ok [OF assms(2)])
  show ?thesis
    unfolding learn_posting_patterns_def
    using ne(2) assms(1) by (simp add: loop hours days range py_round_10)
qed

lemma created_dt_sample:
  "created_dt sample_fromisoformat [(''created_at'', PyStr ''2024-01-01T14:00:00Z'')]
     = Some monday_utc"
  "created_dt sample_fromisoformat [(''created_at'', PyStr ''2024-01-01T14:30:00'')]
     = Some monday_naive"
  by (simp_all add: created_dt_def parse_created_at_def dict_get_def replace_Z_def
        sample_fromisoformat_def monday_utc_def monday_naive_def)

theorem posting_same_monday_hour_witness:
  "length (replicate 10 [(''created_at'', PyStr ''2024-01-01T14:00:00Z'')]) = 10
   \<and> map (created_dt sample_fromisoformat)
         (replicate 10 [(''created_at'', PyStr ''2024-01-01T14:00:00Z'')])
       = map Some (replicate 10 monday_utc)
   \<and> list_all (\<lambda>d. hour d = 14 \<and> ordinal d = 738886 \<and> valid_time d)
         (replicate 10 monday_utc)
   \<and> (738886 + 6) mod 7 = (0 :: nat)
   \<and> comparable (replicate 10 monday_utc)
   \<and> learn_posting_patterns sample_fromisoformat
         (replicate 10 [(''created_at'', PyStr ''2024-01-01T14:00:00Z'')])
       = Inr \<lparr>best_hours = [14], best_days = [''Monday''], avg_per_day = 10,
              total_analyzed = Some 10\<rparr>"
proof -
  let ?tweets = "replicate 10 [(''created_at'', PyStr ''2024-01-01T14:00:00Z'')]"
  have h1: "length ?tweets = 10" by simp
  have h2: "map (created_dt sample_fromisoformat) ?tweets = map Some (replicate 10 monday_utc)"
    by (simp add: created_dt_sample)
  have h3: "\<forall>d \<in> set (replicate 10 monday_utc).
              hour d = 14 \<and> ordinal d = 738886 \<and> valid_time d"
    by (simp add: monday_utc_def valid_time_def)
  have h4: "(738886 + 6) mod 7 = (0 :: nat)" by simp
  have h5: "comparable (replicate 10 monday_utc)"
    by (simp add: comparable_def list_all_iff monday_utc_def)
  show ?thesis
    using posting_same_monday_hour [OF h1 h2 h3 h4 h5] h1 h2 h3 h4 h5
    unfolding list_all_iff by (simp only: simp_thms)
qed

text \<open>
  Claim C8, as stated, at ten tweets on Monday 2024-01-01 at hour 14, the first written
  with a \<open>Z\<close> suffix and the other nine without an offset: \<open>max(dates)\<close> compares an aware
  with a naive datetime and raises TypeError.
\<close>

theorem posting_mixed_awareness_counterexample:
  "learn_posting_patterns sample_fromisoformat
     ([(''created_at'', PyStr ''2024-01-01T14:00:00Z'')]
        # replicate 9 [(''created_at'', PyStr ''2024-01-01T14:30:00'')])
   = Inl TypeError"
proof -
  let ?tweets = "[(''created_at'', PyStr ''2024-01-01T14:00:00Z'')]
                   # replicate 9 [(''created_at'', PyStr ''2024-01-01T14:30:00'')]"
  let ?ds = "monday_utc # replicate 9 monday_naive"
  have m: "map (created_dt sample_fromisoformat) ?tweets = map Some ?ds"
    by (simp add: created_dt_sample)
  have r: "replicate 9 monday_naive = monday_naive # replicate 8 monday_naive"
    by (simp add: numeral_eq_Suc)
  have "max_from monday_utc (replicate 9 monday_naive) = Inl TypeError"
    unfolding r by (simp add: dt_less_def monday_utc_def monday_naive_def)
  then have "span_days (map PyDateTime ?ds) = Inl TypeError"
    unfolding span_days_def those_datetimes by simp
  then have "calculate_date_range sample_fromisoformat ?tweets = Inl TypeError"
    unfolding calculate_date_range_def collect_dates_ok [OF m] by simp
  then show ?thesis
    unfolding learn_posting_patterns_def posting_loop_ok [OF m] by (simp add: Let_def)
qed

end
